theory Spec2Isabelle
  imports Complex_Main "HOL-Library.Multiset" "HOL-Library.Word"
begin

section \<open>JavaScript values\<close>

text \<open>
  The storage layer (\<^verbatim>\<open>storage.ts\<close>, here \<^verbatim>\<open>src/unnamed/part_000\<close>) and
  \<^verbatim>\<open>src/src/index.tsx\<close> pass records of type \<^verbatim>\<open>any\<close>. A record is an object, that is
  a finite map from property names to values; a missing property reads as
  \<^verbatim>\<open>undefined\<close>. Numbers are the integer-valued ones (counts, sizes, heading levels,
  line numbers): the source stores no other number in a record. An \<^verbatim>\<open>ArrayBuffer\<close> is
  its list of bytes.
\<close>

datatype jsval =
    JUndefined
  | JNull
  | JBool bool
  | JNum int
  | JStr string
  | JBinary "8 word list"
  | JArr "jsval list"
  | JObj "string \<Rightarrow> jsval option"

type_synonym obj = "string \<Rightarrow> jsval option"

text \<open>Property read \<^verbatim>\<open>o.k\<close> on an object.\<close>

definition getProp :: "obj \<Rightarrow> string \<Rightarrow> jsval" where
  "getProp m k = (case m k of None \<Rightarrow> JUndefined | Some v \<Rightarrow> v)"

text \<open>Truthiness, and the operator \<^verbatim>\<open>a || b\<close>.\<close>

fun truthy :: "jsval \<Rightarrow> bool" where
  "truthy JUndefined = False"
| "truthy JNull = False"
| "truthy (JBool b) = b"
| "truthy (JNum n) = (n \<noteq> 0)"
| "truthy (JStr s) = (s \<noteq> [])"
| "truthy (JBinary b) = True"
| "truthy (JArr xs) = True"
| "truthy (JObj m) = True"

definition js_or :: "jsval \<Rightarrow> jsval \<Rightarrow> jsval" where
  "js_or a b = (if truthy a then a else b)"

text \<open>Decimal digits of a natural number, as \<^verbatim>\<open>String(n)\<close> prints an integer.\<close>

definition digitChar :: "nat \<Rightarrow> char" where
  "digitChar d = ''0123456789'' ! d"

fun showNat :: "nat \<Rightarrow> string" where
  "showNat n = (if n < 10 then [digitChar n] else showNat (n div 10) @ [digitChar (n mod 10)])"

declare showNat.simps [simp del]

text \<open>\<^verbatim>\<open>Array.prototype.join\<close> on strings.\<close>

fun join :: "string \<Rightarrow> string list \<Rightarrow> string" where
  "join sep [] = []"
| "join sep [x] = x"
| "join sep (x # y # ys) = x @ sep @ join sep (y # ys)"

text \<open>
  The string a template literal \<^verbatim>\<open>`${v}`\<close> inserts for a value. An array prints its
  elements separated by commas, with \<^verbatim>\<open>null\<close> and \<^verbatim>\<open>undefined\<close> elements empty.
\<close>

fun toStr :: "jsval \<Rightarrow> string" and elemStr :: "jsval \<Rightarrow> string" where
  "toStr JUndefined = ''undefined''"
| "toStr JNull = ''null''"
| "toStr (JBool b) = (if b then ''true'' else ''false'')"
| "toStr (JNum n) = (if n < 0 then CHR ''-'' # showNat (nat (- n)) else showNat (nat n))"
| "toStr (JStr s) = s"
| "toStr (JBinary b) = ''[object ArrayBuffer]''"
| "toStr (JArr xs) = join '','' (map elemStr xs)"
| "toStr (JObj m) = ''[object Object]''"
| "elemStr JUndefined = []"
| "elemStr JNull = []"
| "elemStr v = toStr v"


section \<open>NarrativeIndexer: merging narrative indices\<close>

text \<open>
  \<^verbatim>\<open>mergeNarrativeIndices\<close> (index.tsx:413-429). An index entry is an object; the key
  under which it is deduplicated is the template string
  \<^verbatim>\<open>`${item.type}-${item.subtype || item.level}-${item.value || item.title}`\<close>.
\<close>

definition itemKey :: "obj \<Rightarrow> string" where
  "itemKey item =
     toStr (getProp item ''type'') @ ''-'' @
     toStr (js_or (getProp item ''subtype'') (getProp item ''level'')) @ ''-'' @
     toStr (js_or (getProp item ''value'') (getProp item ''title''))"

text \<open>
  The inner \<^verbatim>\<open>index.forEach\<close>: the state is the set \<^verbatim>\<open>seen\<close> and the array
  \<^verbatim>\<open>merged\<close>.
\<close>

fun mergeIndex :: "obj list \<Rightarrow> string set \<times> obj list \<Rightarrow> string set \<times> obj list" where
  "mergeIndex [] (seen, merged) = (seen, merged)"
| "mergeIndex (item # rest) (seen, merged) =
     (let key = itemKey item in
      if key \<notin> seen then mergeIndex rest (insert key seen, merged @ [item])
      else mergeIndex rest (seen, merged))"

text \<open>
  The outer \<^verbatim>\<open>indices.forEach\<close>; \<open>None\<close> is a \<^verbatim>\<open>null\<close> or \<^verbatim>\<open>undefined\<close> index, which
  \<^verbatim>\<open>if (!index) return\<close> skips.
\<close>

fun mergeIndices :: "obj list option list \<Rightarrow> string set \<times> obj list \<Rightarrow> string set \<times> obj list" where
  "mergeIndices [] st = st"
| "mergeIndices (None # rest) st = mergeIndices rest st"
| "mergeIndices (Some index # rest) st = mergeIndices rest (mergeIndex index st)"

definition mergeNarrativeIndices :: "obj list option list \<Rightarrow> obj list" where
  "mergeNarrativeIndices indices = snd (mergeIndices indices ({}, []))"

text \<open>The dedup keys of a list of entries, and all entries of a list of indices.\<close>

definition keysOf :: "obj list \<Rightarrow> string list" where
  "keysOf items = map itemKey items"

definition entriesOf :: "obj list option list \<Rightarrow> obj list" where
  "entriesOf indices = concat (map (\<lambda>ix. case ix of None \<Rightarrow> [] | Some index \<Rightarrow> index) indices)"

text \<open>
  The three components that the key is built from, and the entries whose first two
  components hold no hyphen, so that the key determines the components. The entries that
  \<^verbatim>\<open>extractNarrativeIndex\<close> builds are such: their \<^verbatim>\<open>type\<close> is \<^verbatim>\<open>section\<close>,
  \<^verbatim>\<open>subsection\<close> or \<^verbatim>\<open>entity\<close>, their \<^verbatim>\<open>level\<close> 2 or 3, their \<^verbatim>\<open>subtype\<close>
  \<^verbatim>\<open>person\<close>, \<^verbatim>\<open>date\<close> or \<^verbatim>\<open>amount\<close>.
\<close>

definition keyTriple :: "obj \<Rightarrow> string \<times> string \<times> string" where
  "keyTriple item =
     (toStr (getProp item ''type''),
      toStr (js_or (getProp item ''subtype'') (getProp item ''level'')),
      toStr (js_or (getProp item ''value'') (getProp item ''title'')))"

definition triplesOf :: "obj list \<Rightarrow> (string \<times> string \<times> string) list" where
  "triplesOf items = map keyTriple items"

definition plainKind :: "obj \<Rightarrow> bool" where
  "plainKind item =
     (CHR ''-'' \<notin> set (fst (keyTriple item)) \<and> CHR ''-'' \<notin> set (fst (snd (keyTriple item))))"


section \<open>The environment\<close>

text \<open>
  What the code takes from the browser is a parameter of the model:
  \<^item> \<open>fails\<close>: the IndexedDB requests and transactions that end in \<^verbatim>\<open>onerror\<close> (opening
    the database included); the promise of that operation is rejected;
  \<^item> \<open>epochMs\<close>: \<^verbatim>\<open>new Date(s).getTime()\<close> for an ISO-8601 string \<open>s\<close>;
  \<^item> \<open>sha256hex\<close>: the hexadecimal SHA-256 digest of \<^verbatim>\<open>crypto.subtle\<close>;
  \<^item> \<open>extractNarrativeIndex\<close>: the regular-expression scan of index.tsx:339-410, which
    returns an array of objects; no property below depends on which entries it finds.
  The readings of the clock (\<^verbatim>\<open>new Date().toISOString()\<close>) are arguments of the
  operations that take them.
\<close>

datatype store_op =
    SaveReport string
  | GetReports string
  | SaveEvidence string
  | GetEvidence string
  | SaveCaseMetadata string
  | GetCaseMetadata string
  | GetAllCases

datatype error = StorageError store_op | TypeError

record env =
  fails :: "store_op \<Rightarrow> bool"
  epochMs :: "string \<Rightarrow> int"
  sha256hex :: "string \<Rightarrow> string"
  extractNarrativeIndex :: "string \<Rightarrow> obj list"


section \<open>IndexedDBStorage: the authoritative local store\<close>

text \<open>
  The three object stores of \<^verbatim>\<open>VerumOmnisDB\<close> (part_000:48-75). \<^verbatim>\<open>reports\<close> and
  \<^verbatim>\<open>evidence_files\<close> have an auto-increment key, so \<^verbatim>\<open>add\<close> appends and the
  records are kept in the order of their keys; \<^verbatim>\<open>case_metadata\<close> is keyed by
  \<^verbatim>\<open>caseId\<close>. The generated key, which IndexedDB also writes into the stored record as
  its \<^verbatim>\<open>id\<close>, is not part of the records here. A promise is a sum: \<open>Inl e\<close> is a rejection with \<open>e\<close>, \<open>Inr x\<close> the
  fulfilment with \<open>x\<close>, for a write the store after it.
\<close>

record db =
  reports :: "obj list"
  evidence_files :: "obj list"
  case_metadata :: "string \<Rightarrow> obj option"

definition IndexedDBStorage_saveReport :: "env \<Rightarrow> string \<Rightarrow> db \<Rightarrow> string \<Rightarrow> obj \<Rightarrow> error + db" where
  "IndexedDBStorage_saveReport env now d caseId data =
     (if fails env (SaveReport caseId) then Inl (StorageError (SaveReport caseId))
      else Inr (d\<lparr>reports := reports d @
                  [data(''caseId'' \<mapsto> JStr caseId, ''timestamp'' \<mapsto> JStr now)]\<rparr>))"

text \<open>
  \<^verbatim>\<open>index.getAll(IDBKeyRange.only(caseId))\<close> gives the records whose \<^verbatim>\<open>caseId\<close> is the
  key, in key order.
\<close>

definition ofCase :: "string \<Rightarrow> obj list \<Rightarrow> obj list" where
  "ofCase caseId rs = filter (\<lambda>r. r ''caseId'' = Some (JStr caseId)) rs"

text \<open>
  The sort key \<^verbatim>\<open>new Date(r.timestamp).getTime()\<close> of \<^verbatim>\<open>getReports\<close>. Every stored
  report has the ISO string that \<^verbatim>\<open>saveReport\<close> wrote there; the sort is stable.
\<close>

definition timeOf :: "env \<Rightarrow> obj \<Rightarrow> int" where
  "timeOf env r = (case r ''timestamp'' of Some (JStr s) \<Rightarrow> epochMs env s | _ \<Rightarrow> 0)"

definition IndexedDBStorage_getReports :: "env \<Rightarrow> db \<Rightarrow> string \<Rightarrow> error + obj list" where
  "IndexedDBStorage_getReports env d caseId =
     (if fails env (GetReports caseId) then Inl (StorageError (GetReports caseId))
      else Inr (sort_key (timeOf env) (ofCase caseId (reports d))))"

definition IndexedDBStorage_saveEvidence :: "env \<Rightarrow> string \<Rightarrow> db \<Rightarrow> string \<Rightarrow> obj \<Rightarrow> error + db" where
  "IndexedDBStorage_saveEvidence env now d caseId data =
     (if fails env (SaveEvidence caseId) then Inl (StorageError (SaveEvidence caseId))
      else Inr (d\<lparr>evidence_files := evidence_files d @
                  [data(''caseId'' \<mapsto> JStr caseId, ''timestamp'' \<mapsto> JStr now)]\<rparr>))"

definition IndexedDBStorage_getEvidence :: "env \<Rightarrow> db \<Rightarrow> string \<Rightarrow> error + obj list" where
  "IndexedDBStorage_getEvidence env d caseId =
     (if fails env (GetEvidence caseId) then Inl (StorageError (GetEvidence caseId))
      else Inr (ofCase caseId (evidence_files d)))"

text \<open>\<^verbatim>\<open>store.put({ ...data, caseId })\<close> replaces the record stored under \<^verbatim>\<open>caseId\<close>.\<close>

definition IndexedDBStorage_saveCaseMetadata :: "env \<Rightarrow> db \<Rightarrow> string \<Rightarrow> obj \<Rightarrow> error + db" where
  "IndexedDBStorage_saveCaseMetadata env d caseId data =
     (if fails env (SaveCaseMetadata caseId) then Inl (StorageError (SaveCaseMetadata caseId))
      else Inr (d\<lparr>case_metadata := (case_metadata d)(caseId \<mapsto> data(''caseId'' \<mapsto> JStr caseId))\<rparr>))"

text \<open>\<^verbatim>\<open>request.result || null\<close>: \<open>None\<close> is \<^verbatim>\<open>null\<close>.\<close>

definition IndexedDBStorage_getCaseMetadata :: "env \<Rightarrow> db \<Rightarrow> string \<Rightarrow> error + obj option" where
  "IndexedDBStorage_getCaseMetadata env d caseId =
     (if fails env (GetCaseMetadata caseId) then Inl (StorageError (GetCaseMetadata caseId))
      else Inr (case_metadata d caseId))"

text \<open>
  \<^verbatim>\<open>new Set(reports.map(r => r.caseId).filter(Boolean))\<close>: the non-empty case identifiers
  of the stored reports, each once, in the order in which they first occur.
\<close>

definition caseIdOf :: "obj \<Rightarrow> string option" where
  "caseIdOf r = (case r ''caseId'' of Some (JStr c) \<Rightarrow> if c \<noteq> [] then Some c else None | _ \<Rightarrow> None)"

definition firstSeen :: "'a list \<Rightarrow> 'a list" where
  "firstSeen xs = rev (remdups (rev xs))"

definition IndexedDBStorage_getAllCases :: "env \<Rightarrow> db \<Rightarrow> error + string list" where
  "IndexedDBStorage_getAllCases env d =
     (if fails env GetAllCases then Inl (StorageError GetAllCases)
      else Inr (firstSeen (List.map_filter caseIdOf (reports d))))"


section \<open>StorageManager\<close>

text \<open>
  The facade calls the local store first. The replication that follows
  (\<^verbatim>\<open>FirebaseSync\<close>, part_000:166-219) runs only after the local call has succeeded,
  catches every error of its own and does not touch the local store, so it changes
  neither the result nor the local state and is left out.
\<close>

definition StorageManager_saveReport ::
  "env \<Rightarrow> string \<Rightarrow> db \<Rightarrow> string \<Rightarrow> string \<Rightarrow> string list \<Rightarrow> obj \<Rightarrow> error + db" where
  "StorageManager_saveReport env now d caseId content evidence metadata =
     (let data = [''content'' \<mapsto> JStr content, ''evidence'' \<mapsto> JArr (map JStr evidence)] ++ metadata
      in IndexedDBStorage_saveReport env now d caseId data)"

definition StorageManager_getReports :: "env \<Rightarrow> db \<Rightarrow> string \<Rightarrow> error + obj list" where
  "StorageManager_getReports env d caseId = IndexedDBStorage_getReports env d caseId"

text \<open>A \<^verbatim>\<open>File\<close>: its \<^verbatim>\<open>size\<close> is the number of its bytes.\<close>

record jsfile =
  file_name :: string
  file_type :: string
  file_bytes :: "8 word list"

definition file_size :: "jsfile \<Rightarrow> nat" where
  "file_size f = length (file_bytes f)"

definition StorageManager_saveEvidence ::
  "env \<Rightarrow> string \<Rightarrow> db \<Rightarrow> string \<Rightarrow> jsfile \<Rightarrow> string \<Rightarrow> jsval \<Rightarrow> error + db" where
  "StorageManager_saveEvidence env now d caseId f fileHash metadata =
     (let data = [''fileName'' \<mapsto> JStr (file_name f),
                  ''fileType'' \<mapsto> JStr (file_type f),
                  ''fileSize'' \<mapsto> JNum (int (file_size f)),
                  ''fileHash'' \<mapsto> JStr fileHash,
                  ''binaryData'' \<mapsto> JBinary (file_bytes f),
                  ''metadata'' \<mapsto> metadata]
      in IndexedDBStorage_saveEvidence env now d caseId data)"

definition StorageManager_getEvidence :: "env \<Rightarrow> db \<Rightarrow> string \<Rightarrow> error + obj list" where
  "StorageManager_getEvidence env d caseId = IndexedDBStorage_getEvidence env d caseId"

definition StorageManager_saveCaseMetadata :: "env \<Rightarrow> db \<Rightarrow> string \<Rightarrow> obj \<Rightarrow> error + db" where
  "StorageManager_saveCaseMetadata env d caseId metadata =
     IndexedDBStorage_saveCaseMetadata env d caseId metadata"

definition StorageManager_getCaseMetadata :: "env \<Rightarrow> db \<Rightarrow> string \<Rightarrow> error + obj option" where
  "StorageManager_getCaseMetadata env d caseId = IndexedDBStorage_getCaseMetadata env d caseId"

definition StorageManager_getAllCases :: "env \<Rightarrow> db \<Rightarrow> error + string list" where
  "StorageManager_getAllCases env d = IndexedDBStorage_getAllCases env d"

text \<open>
  \<^verbatim>\<open>exportAllData\<close> (part_000:292-312). Each evidence record is copied with its
  \<^verbatim>\<open>binaryData\<close> replaced by the string \<^verbatim>\<open>`<BINARY ${e.fileSize} bytes>`\<close>.
\<close>

definition redactBinary :: "obj \<Rightarrow> obj" where
  "redactBinary e =
     e(''binaryData'' \<mapsto> JStr (''<BINARY '' @ toStr (getProp e ''fileSize'') @ '' bytes>''))"

definition caseExport :: "obj list \<Rightarrow> obj list \<Rightarrow> obj option \<Rightarrow> jsval" where
  "caseExport reps evidence metadata =
     JObj [''reports'' \<mapsto> JArr (map JObj reps),
           ''evidence'' \<mapsto> JArr (map (\<lambda>e. JObj (redactBinary e)) evidence),
           ''metadata'' \<mapsto> (case metadata of None \<Rightarrow> JNull | Some m \<Rightarrow> JObj m)]"

fun exportCases :: "env \<Rightarrow> db \<Rightarrow> string list \<Rightarrow> obj \<Rightarrow> error + obj" where
  "exportCases env d [] cases = Inr cases"
| "exportCases env d (caseId # rest) cases =
     (case StorageManager_getReports env d caseId of
        Inl e \<Rightarrow> Inl e
      | Inr reps \<Rightarrow>
         (case StorageManager_getEvidence env d caseId of
            Inl e \<Rightarrow> Inl e
          | Inr evidence \<Rightarrow>
             (case StorageManager_getCaseMetadata env d caseId of
                Inl e \<Rightarrow> Inl e
              | Inr metadata \<Rightarrow>
                 exportCases env d rest (cases(caseId \<mapsto> caseExport reps evidence metadata)))))"

definition exportAllData :: "env \<Rightarrow> string \<Rightarrow> db \<Rightarrow> error + obj" where
  "exportAllData env now d =
     (case StorageManager_getAllCases env d of
        Inl e \<Rightarrow> Inl e
      | Inr cases \<Rightarrow>
         (case exportCases env d cases Map.empty of
            Inl e \<Rightarrow> Inl e
          | Inr exported \<Rightarrow> Inr [''cases'' \<mapsto> JObj exported, ''exportedAt'' \<mapsto> JStr now]))"


text \<open>An evidence record without its \<^verbatim>\<open>binaryData\<close>.\<close>

definition stripBinary :: "obj \<Rightarrow> obj" where
  "stripBinary e = e(''binaryData'' := None)"

text \<open>The value \<^verbatim>\<open>doc.cases[caseId].evidence\<close> of an exported document.\<close>

definition exportedEvidence :: "obj \<Rightarrow> string \<Rightarrow> jsval option" where
  "exportedEvidence doc caseId =
     (case doc ''cases'' of
        Some (JObj cases) \<Rightarrow> (case cases caseId of Some (JObj c) \<Rightarrow> c ''evidence'' | _ \<Rightarrow> None)
      | _ \<Rightarrow> None)"


section \<open>The save operations of the application\<close>

text \<open>
  \<^verbatim>\<open>saveEvidenceFileToDB\<close> (index.tsx:252-259) and \<^verbatim>\<open>saveReportToDB\<close>
  (index.tsx:306-336) work on the global \<^verbatim>\<open>storage\<close>; \<^verbatim>\<open>console.error\<close> appends its
  message and the caught error to the console.
\<close>

record app =
  store :: db
  console :: "(string \<times> error) list"

definition console_error :: "string \<Rightarrow> error \<Rightarrow> app \<Rightarrow> app" where
  "console_error msg e a = a\<lparr>console := console a @ [(msg, e)]\<rparr>"

definition saveEvidenceFileToDB ::
  "env \<Rightarrow> string \<Rightarrow> app \<Rightarrow> string \<Rightarrow> jsfile \<Rightarrow> string \<Rightarrow> jsval \<Rightarrow> error + app" where
  "saveEvidenceFileToDB env now a caseId f fileHash metadata =
     (if caseId = [] then Inr a
      else case StorageManager_saveEvidence env now (store a) caseId f fileHash metadata of
             Inl e \<Rightarrow> Inr (console_error ''Failed to save evidence file'' e a)
           | Inr d' \<Rightarrow> Inr (a\<lparr>store := d'\<rparr>))"

text \<open>
  The indices handed to the merge, \<^verbatim>\<open>reports.map(r => r.narrativeIndex || [])\<close>. The
  field holds the array of objects that \<^verbatim>\<open>saveReportToDB\<close> stored, or is absent. On any
  other value that is not falsy the merge raises a \<^verbatim>\<open>TypeError\<close> (\<^verbatim>\<open>forEach\<close> of a value
  that is no array, a property of \<^verbatim>\<open>null\<close>), which is \<open>None\<close> here.
\<close>

definition asEntry :: "jsval \<Rightarrow> obj option" where
  "asEntry v = (case v of JObj m \<Rightarrow> Some m | _ \<Rightarrow> None)"

definition indexOfReport :: "obj \<Rightarrow> obj list option" where
  "indexOfReport r =
     (case js_or (getProp r ''narrativeIndex'') (JArr []) of
        JArr xs \<Rightarrow> those (map asEntry xs)
      | _ \<Rightarrow> None)"

definition caseAggregate :: "obj list \<Rightarrow> string list \<Rightarrow> string \<Rightarrow> obj list list \<Rightarrow> string \<Rightarrow> obj" where
  "caseAggregate reps evidence reportHash indices now =
     [''reportCount'' \<mapsto> JNum (int (length reps)),
      ''evidenceCount'' \<mapsto> JNum (int (length evidence)),
      ''lastReportHash'' \<mapsto> JStr reportHash,
      ''narrativeIndex'' \<mapsto> JArr (map JObj (mergeNarrativeIndices (map Some indices))),
      ''updatedAt'' \<mapsto> JStr now]"

definition saveReportToDB ::
  "env \<Rightarrow> string \<Rightarrow> string \<Rightarrow> app \<Rightarrow> string \<Rightarrow> string \<Rightarrow> string list \<Rightarrow> error + app" where
  "saveReportToDB env tSave tUpdate a caseId content evidence =
     (if caseId = [] then Inr a
      else
        let reportHash = sha256hex env content;
            narrativeIndex = extractNarrativeIndex env content
        in case StorageManager_saveReport env tSave (store a) caseId content evidence
                  [''reportHash'' \<mapsto> JStr reportHash,
                   ''narrativeIndex'' \<mapsto> JArr (map JObj narrativeIndex)] of
             Inl e \<Rightarrow> Inr (console_error ''Failed to save report'' e a)
           | Inr d1 \<Rightarrow>
              (case StorageManager_getReports env d1 caseId of
                 Inl e \<Rightarrow> Inr (console_error ''Failed to save report'' e (a\<lparr>store := d1\<rparr>))
               | Inr reps \<Rightarrow>
                  (case those (map indexOfReport reps) of
                     None \<Rightarrow> Inr (console_error ''Failed to save report'' TypeError (a\<lparr>store := d1\<rparr>))
                   | Some indices \<Rightarrow>
                      (case StorageManager_saveCaseMetadata env d1 caseId
                              (caseAggregate reps evidence reportHash indices tUpdate) of
                         Inl e \<Rightarrow> Inr (console_error ''Failed to save report'' e (a\<lparr>store := d1\<rparr>))
                       | Inr d2 \<Rightarrow> Inr (a\<lparr>store := d2\<rparr>)))))"


text \<open>The field \<open>field\<close> of the Case aggregate stored for \<open>caseId\<close>, if there is one.\<close>

definition storedField :: "string \<Rightarrow> string \<Rightarrow> db \<Rightarrow> jsval option" where
  "storedField field caseId d = (case case_metadata d caseId of None \<Rightarrow> None | Some m \<Rightarrow> m field)"


section \<open>The offline forensics engine\<close>

text \<open>
  \<^verbatim>\<open>runOfflineForensics\<close> (index.tsx:510-646) builds its report from the descriptors
  \<^verbatim>\<open>{name, type, size, lastModified, hash}\<close> of index.tsx:742-749. \<open>None\<close> is a
  descriptor without \<^verbatim>\<open>type\<close>; \<^verbatim>\<open>size\<close> is a \<^verbatim>\<open>File\<close>'s byte count;
  \<^verbatim>\<open>lastModified\<close> is an ISO-8601 string. Modelled here are the blocks that push the
  metadata section (index.tsx:546-566) and the temporal anomalies (index.tsx:525-527 and
  582-599) to \<^verbatim>\<open>findings\<close>.
\<close>

record descriptor =
  d_name :: string
  d_type :: "string option"
  d_size :: nat
  d_lastModified :: string
  d_hash :: string

definition nl :: string where
  "nl = [CHR 0x0A]"

definition dquote :: string where
  "dquote = [CHR 0x22]"

text \<open>
  \<^verbatim>\<open>x.toFixed(2)\<close> for \<open>x \<ge> 0\<close>: the integer \<open>n\<close> with \<open>n / 100\<close> nearest to \<open>x\<close>, the
  larger one of two, printed with two decimals. The argument \<^verbatim>\<open>f.size / 1024 / 1024\<close>
  is exact in binary floating point.
\<close>

definition twoDigits :: "nat \<Rightarrow> string" where
  "twoDigits n = [digitChar (n div 10 mod 10), digitChar (n mod 10)]"

definition toFixed2 :: "rat \<Rightarrow> string" where
  "toFixed2 x = (let n = nat \<lfloor>x * 100 + 1 / 2\<rfloor> in showNat (n div 100) @ ''.'' @ twoDigits (n mod 100))"

text \<open>
  \<^verbatim>\<open>Math.round\<close> rounds to the nearest integer, a half upwards. The hours are computed
  here on the rationals; the floating-point quotient \<^verbatim>\<open>diffMs / 3600000\<close> compares with
  24 and rounds the same way for every difference below \<open>2^53\<close> milliseconds.
\<close>

definition Math_round :: "rat \<Rightarrow> int" where
  "Math_round x = \<lfloor>x + 1 / 2\<rfloor>"

text \<open>The three checks of the \<^verbatim>\<open>forEach\<close> at index.tsx:548-558, for one descriptor.\<close>

definition issuesOf :: "descriptor \<Rightarrow> string list" where
  "issuesOf f =
     (if d_type f = None \<or> d_type f = Some [] then
        [''- **'' @ d_name f @ ''**: Missing MIME type information'']
      else [])
     @ (if d_size f = 0 then
          [''- **'' @ d_name f @ ''**: WARNING - File is empty (0 bytes)'']
        else [])
     @ (if d_size f > 50 * 1024 * 1024 then
          [''- **'' @ d_name f @ ''**: Large file ('' @ toFixed2 (of_nat (d_size f) / 1024 / 1024)
             @ '' MB) - may indicate data dump'']
        else [])"

definition metadataIssues :: "descriptor list \<Rightarrow> string list" where
  "metadataIssues localForensics = concat (map issuesOf localForensics)"

definition metadataSection :: "descriptor list \<Rightarrow> string list" where
  "metadataSection localForensics =
     [''## 4. Metadata Analysis (Brain B3)'' @ nl]
     @ (if length (metadataIssues localForensics) > 0 then
          [''**Metadata Anomalies Detected:**'' @ nl, join nl (metadataIssues localForensics)]
        else [''All files have complete metadata. No anomalies detected.''])
     @ [[]]"

text \<open>The stable sort of index.tsx:525-527.\<close>

definition modifiedMs :: "env \<Rightarrow> descriptor \<Rightarrow> int" where
  "modifiedMs env f = epochMs env (d_lastModified f)"

definition sortedFiles :: "env \<Rightarrow> descriptor list \<Rightarrow> descriptor list" where
  "sortedFiles env localForensics = sort_key (modifiedMs env) localForensics"

text \<open>The loop over \<open>i = 1 ..< length\<close> of index.tsx:584-593, on the sorted list.\<close>

fun timeGaps :: "env \<Rightarrow> descriptor list \<Rightarrow> string list" where
  "timeGaps env (prevF # currF # others) =
     (let diffMs = modifiedMs env currF - modifiedMs env prevF;
          diffHours = (of_int diffMs :: rat) / (1000 * 60 * 60)
      in (if diffHours > 24 then
            [''- Gap of '' @ toStr (JNum (Math_round diffHours)) @ '' hours between '' @ dquote
               @ d_name prevF @ dquote @ '' and '' @ dquote @ d_name currF @ dquote]
          else [])
         @ timeGaps env (currF # others))"
| "timeGaps env [f] = []"
| "timeGaps env [] = []"

definition temporalBlock :: "env \<Rightarrow> descriptor list \<Rightarrow> string list" where
  "temporalBlock env localForensics =
     (let gaps = timeGaps env (sortedFiles env localForensics)
      in if length gaps > 0 then [''**Temporal Anomalies:**'' @ nl, join nl gaps, []] else [])"

text \<open>Notions used to state the properties of the two blocks.\<close>

definition anomalous :: "descriptor \<Rightarrow> bool" where
  "anomalous f = (d_type f = None \<or> d_type f = Some [] \<or> d_size f = 0 \<or> d_size f > 50 * 1024 * 1024)"

definition gapMs :: "env \<Rightarrow> descriptor \<times> descriptor \<Rightarrow> int" where
  "gapMs env p = modifiedMs env (snd p) - modifiedMs env (fst p)"

definition roundedHours :: "int \<Rightarrow> int" where
  "roundedHours ms = Math_round (of_int ms / (1000 * 60 * 60))"

definition gapLine :: "env \<Rightarrow> descriptor \<times> descriptor \<Rightarrow> string" where
  "gapLine env p =
     ''- Gap of '' @ toStr (JNum (roundedHours (gapMs env p))) @ '' hours between '' @ dquote
       @ d_name (fst p) @ dquote @ '' and '' @ dquote @ d_name (snd p) @ dquote"

definition adjacentPairs :: "'a list \<Rightarrow> ('a \<times> 'a) list" where
  "adjacentPairs xs = zip xs (tl xs)"


definition exceedsDay :: "env \<Rightarrow> descriptor \<times> descriptor \<Rightarrow> bool" where
  "exceedsDay env p = (gapMs env p > 24 * 60 * 60 * 1000)"


section \<open>Example data\<close>

definition entrySection :: obj where
  "entrySection = [''type'' \<mapsto> JStr ''section'', ''level'' \<mapsto> JNum 2, ''title'' \<mapsto> JStr ''Intro'',
                   ''line'' \<mapsto> JNum 0]"

definition entrySectionAgain :: obj where
  "entrySectionAgain = [''type'' \<mapsto> JStr ''section'', ''level'' \<mapsto> JNum 2, ''title'' \<mapsto> JStr ''Intro'',
                        ''line'' \<mapsto> JNum 7]"

definition entryDate :: obj where
  "entryDate = [''type'' \<mapsto> JStr ''entity'', ''subtype'' \<mapsto> JStr ''date'',
                ''value'' \<mapsto> JStr ''2024-01-02'', ''context'' \<mapsto> JStr ''Intro'', ''line'' \<mapsto> JNum 3]"

definition envOk :: env where
  "envOk = \<lparr>fails = (\<lambda>op. False),
            epochMs = (\<lambda>s. if s = ''2024-01-02T06:00:00.000Z'' then 108000000
                          else if s = ''2024-01-01T01:00:00.000Z'' then 3600000 else 0),
            sha256hex = (\<lambda>s. ''9f86d081''),
            extractNarrativeIndex = (\<lambda>s. [entrySection, entryDate])\<rparr>"

definition envFailing :: env where
  "envFailing = envOk\<lparr>fails := (\<lambda>op. op = SaveReport ''case-1'' \<or> op = SaveEvidence ''case-1'')\<rparr>"

definition dbEmpty :: db where
  "dbEmpty = \<lparr>reports = [], evidence_files = [], case_metadata = Map.empty\<rparr>"

definition appEmpty :: app where
  "appEmpty = \<lparr>store = dbEmpty, console = []\<rparr>"

definition fileA :: jsfile where
  "fileA = \<lparr>file_name = ''a.pdf'', file_type = ''application/pdf'', file_bytes = [37, 80, 68]\<rparr>"

definition dbTagged :: db where
  "dbTagged = dbEmpty\<lparr>case_metadata :=
     [''case-1'' \<mapsto> [''caseId'' \<mapsto> JStr ''case-1'', ''reportCount'' \<mapsto> JNum 1,
                      ''tags'' \<mapsto> JArr [JStr ''fraud'']]]\<rparr>"

definition descA :: descriptor where
  "descA = \<lparr>d_name = ''a.pdf'', d_type = Some ''application/pdf'', d_size = 1024,
            d_lastModified = ''2024-01-01T00:00:00.000Z'', d_hash = ''ab12''\<rparr>"

definition descB :: descriptor where
  "descB = \<lparr>d_name = ''b.bin'', d_type = Some [], d_size = 0,
            d_lastModified = ''2024-01-02T06:00:00.000Z'', d_hash = ''cd34''\<rparr>"

definition descC :: descriptor where
  "descC = \<lparr>d_name = ''c.txt'', d_type = Some ''text/plain'', d_size = 12,
            d_lastModified = ''2024-01-01T01:00:00.000Z'', d_hash = ''ef56''\<rparr>"

definition descBig :: descriptor where
  "descBig = \<lparr>d_name = ''dump.zip'', d_type = None, d_size = 78643200,
              d_lastModified = ''2024-01-01T00:00:00.000Z'', d_hash = ''0a0b''\<rparr>"


definition dbWithPayload :: "8 word list \<Rightarrow> db" where
  "dbWithPayload bytes =
     \<lparr>reports = [[''content'' \<mapsto> JStr ''# Report'', ''caseId'' \<mapsto> JStr ''case-1'',
                   ''timestamp'' \<mapsto> JStr ''2024-01-01T01:00:00.000Z'']],
      evidence_files = [[''fileName'' \<mapsto> JStr ''a.pdf'', ''fileSize'' \<mapsto> JNum 3,
                         ''binaryData'' \<mapsto> JBinary bytes, ''caseId'' \<mapsto> JStr ''case-1'',
                         ''timestamp'' \<mapsto> JStr ''2024-01-01T01:00:00.000Z'']],
      case_metadata = Map.empty\<rparr>"

definition dataConflicting :: obj where
  "dataConflicting = [''content'' \<mapsto> JStr ''# Report'', ''caseId'' \<mapsto> JStr ''other-case'',
                      ''timestamp'' \<mapsto> JStr ''1999-12-31T23:59:59.000Z'']"


section \<open>Properties of the merge\<close>

lemma mergeIndex_seen:
  "fst (mergeIndex xs (seen, merged)) = seen \<union> set (keysOf xs)"
  by (induction xs arbitrary: seen merged) (auto simp: keysOf_def Let_def)

lemma mergeIndex_keys:
  "set (keysOf (snd (mergeIndex xs (seen, merged)))) =
     set (keysOf merged) \<union> (set (keysOf xs) - seen)"
  by (induction xs arbitrary: seen merged) (auto simp: keysOf_def Let_def)

lemma mergeIndex_distinct:
  "distinct (keysOf merged) \<Longrightarrow> set (keysOf merged) \<subseteq> seen \<Longrightarrow>
   distinct (keysOf (snd (mergeIndex xs (seen, merged))))"
proof (induction xs arbitrary: seen merged)
  case Nil
  then show ?case by simp
next
  case (Cons x xs)
  show ?case
  proof (cases "itemKey x \<in> seen")
    case True
    with Cons show ?thesis by simp
  next
    case False
    have d: "distinct (keysOf (merged @ [x]))"
      using Cons.prems False by (auto simp: keysOf_def)
    have s: "set (keysOf (merged @ [x])) \<subseteq> insert (itemKey x) seen"
      using Cons.prems by (auto simp: keysOf_def)
    from Cons.IH [OF d s] False show ?thesis by simp
  qed
qed

lemma mergeIndex_fresh:
  "distinct (keysOf xs) \<Longrightarrow> set (keysOf xs) \<inter> seen = {} \<Longrightarrow>
   snd (mergeIndex xs (seen, merged)) = merged @ xs"
  by (induction xs arbitrary: seen merged) (auto simp: keysOf_def Let_def)

lemma mergeIndices_seen:
  "fst (mergeIndices ixs (seen, merged)) = seen \<union> set (keysOf (entriesOf ixs))"
proof (induction ixs arbitrary: seen merged)
  case Nil
  then show ?case by (simp add: entriesOf_def keysOf_def)
next
  case (Cons ix ixs)
  show ?case
  proof (cases ix)
    case None
    with Cons show ?thesis by (simp add: entriesOf_def)
  next
    case (Some index)
    obtain s m where sm: "mergeIndex index (seen, merged) = (s, m)"
      by (cases "mergeIndex index (seen, merged)")
    have "s = seen \<union> set (keysOf index)"
      using mergeIndex_seen [of index seen merged] sm by simp
    with Cons [of s m] Some sm show ?thesis
      by (auto simp: entriesOf_def keysOf_def)
  qed
qed

lemma mergeIndices_keys:
  "set (keysOf (snd (mergeIndices ixs (seen, merged)))) =
     set (keysOf merged) \<union> (set (keysOf (entriesOf ixs)) - seen)"
proof (induction ixs arbitrary: seen merged)
  case Nil
  then show ?case by (simp add: entriesOf_def keysOf_def)
next
  case (Cons ix ixs)
  show ?case
  proof (cases ix)
    case None
    with Cons show ?thesis by (simp add: entriesOf_def)
  next
    case (Some index)
    obtain s m where sm: "mergeIndex index (seen, merged) = (s, m)"
      by (cases "mergeIndex index (seen, merged)")
    have s: "s = seen \<union> set (keysOf index)"
      using mergeIndex_seen [of index seen merged] sm by simp
    have m: "set (keysOf m) = set (keysOf merged) \<union> (set (keysOf index) - seen)"
      using mergeIndex_keys [of index seen merged] sm by simp
    from Cons [of s m] Some sm s m show ?thesis
      by (auto simp: entriesOf_def keysOf_def)
  qed
qed

lemma mergeIndices_distinct:
  "distinct (keysOf merged) \<Longrightarrow> set (keysOf merged) \<subseteq> seen \<Longrightarrow>
   distinct (keysOf (snd (mergeIndices ixs (seen, merged))))"
proof (induction ixs arbitrary: seen merged)
  case Nil
  then show ?case by simp
next
  case (Cons ix ixs)
  show ?case
  proof (cases ix)
    case None
    with Cons show ?thesis by simp
  next
    case (Some index)
    obtain s m where sm: "mergeIndex index (seen, merged) = (s, m)"
      by (cases "mergeIndex index (seen, merged)")
    have d: "distinct (keysOf m)"
      using mergeIndex_distinct [OF Cons.prems, of index] sm by simp
    have "s = seen \<union> set (keysOf index)"
      using mergeIndex_seen [of index seen merged] sm by simp
    moreover have "set (keysOf m) = set (keysOf merged) \<union> (set (keysOf index) - seen)"
      using mergeIndex_keys [of index seen merged] sm by simp
    ultimately have "set (keysOf m) \<subseteq> s"
      using Cons.prems by auto
    from Cons.IH [OF d this] Some sm show ?thesis by simp
  qed
qed

lemma merge_keys: "set (keysOf (mergeNarrativeIndices ixs)) = set (keysOf (entriesOf ixs))"
  using mergeIndices_keys [of ixs "{}" "[]"]
  by (simp add: mergeNarrativeIndices_def keysOf_def)

lemma merge_distinct: "distinct (keysOf (mergeNarrativeIndices ixs))"
  using mergeIndices_distinct [of "[]" "{}" ixs]
  by (simp add: mergeNarrativeIndices_def keysOf_def)

lemma merge_of_distinct:
  "distinct (keysOf xs) \<Longrightarrow> mergeNarrativeIndices [Some xs] = xs"
  using mergeIndex_fresh [of xs "{}" "[]"]
  by (simp add: mergeNarrativeIndices_def)

lemma entriesOf_mset:
  "mset xs = mset ys \<Longrightarrow> set (entriesOf xs) = set (entriesOf ys)"
proof -
  assume "mset xs = mset ys"
  then have "set xs = set ys" by (rule mset_eq_setD)
  then show ?thesis by (auto simp: entriesOf_def)
qed

text \<open>
  C4. Merging is idempotent: merging the one-element list that holds the merge of a
  fact-list \<open>A\<close> gives the merge of \<open>A\<close> again.
\<close>

theorem merge_idempotent:
  "mergeNarrativeIndices [Some (mergeNarrativeIndices [Some A])] = mergeNarrativeIndices [Some A]"
  by (rule merge_of_distinct) (rule merge_distinct)

lemma sep_split:
  "c \<notin> set a \<Longrightarrow> c \<notin> set a' \<Longrightarrow> a @ c # r = a' @ c # r' \<Longrightarrow> a = a' \<and> r = r'"
proof (induction a arbitrary: a')
  case Nil
  then show ?case by (cases a') auto
next
  case (Cons x a)
  then show ?case by (cases a') auto
qed

lemma itemKey_triple:
  "itemKey x = fst (keyTriple x) @ CHR ''-'' # fst (snd (keyTriple x)) @ CHR ''-'' # snd (snd (keyTriple x))"
  by (simp add: itemKey_def keyTriple_def)

lemma triple_imp_key: "keyTriple x = keyTriple y \<Longrightarrow> itemKey x = itemKey y"
  by (simp add: itemKey_triple)

lemma key_imp_triple:
  assumes "plainKind x" and "plainKind y" and "itemKey x = itemKey y"
  shows "keyTriple x = keyTriple y"
proof -
  from assms(3) have e: "fst (keyTriple x) @ CHR ''-'' # (fst (snd (keyTriple x)) @ CHR ''-'' # snd (snd (keyTriple x)))
       = fst (keyTriple y) @ CHR ''-'' # (fst (snd (keyTriple y)) @ CHR ''-'' # snd (snd (keyTriple y)))"
    by (simp add: itemKey_triple)
  from assms(1,2) have h1: "CHR ''-'' \<notin> set (fst (keyTriple x))" "CHR ''-'' \<notin> set (fst (keyTriple y))"
    and h2: "CHR ''-'' \<notin> set (fst (snd (keyTriple x)))" "CHR ''-'' \<notin> set (fst (snd (keyTriple y)))"
    by (simp_all add: plainKind_def)
  from sep_split [OF h1 e] have a: "fst (keyTriple x) = fst (keyTriple y)"
    and r: "fst (snd (keyTriple x)) @ CHR ''-'' # snd (snd (keyTriple x))
          = fst (snd (keyTriple y)) @ CHR ''-'' # snd (snd (keyTriple y))"
    by simp_all
  from sep_split [OF h2 r] a show ?thesis
    by (simp add: prod_eq_iff)
qed

lemma mergeIndex_subset:
  "set (snd (mergeIndex xs (seen, merged))) \<subseteq> set merged \<union> set xs"
proof (induction xs arbitrary: seen merged)
  case Nil
  show ?case by simp
next
  case (Cons x xs)
  show ?case
    using Cons [of "insert (itemKey x) seen" "merged @ [x]"] Cons [of seen merged]
    by (auto simp: Let_def)
qed

lemma mergeIndices_subset:
  "set (snd (mergeIndices ixs (seen, merged))) \<subseteq> set merged \<union> set (entriesOf ixs)"
proof (induction ixs arbitrary: seen merged)
  case Nil
  show ?case by (simp add: entriesOf_def)
next
  case (Cons ix ixs)
  show ?case
  proof (cases ix)
    case None
    with Cons [of seen merged] show ?thesis by (simp add: entriesOf_def)
  next
    case (Some index)
    obtain s m where sm: "mergeIndex index (seen, merged) = (s, m)"
      by (cases "mergeIndex index (seen, merged)")
    have "set m \<subseteq> set merged \<union> set index"
      using mergeIndex_subset [of index seen merged] sm by simp
    with Cons [of s m] Some sm show ?thesis
      by (auto simp: entriesOf_def)
  qed
qed

lemma merge_subset: "set (mergeNarrativeIndices ixs) \<subseteq> set (entriesOf ixs)"
  using mergeIndices_subset [of ixs "{}" "[]"] by (simp add: mergeNarrativeIndices_def)

lemma merge_triples:
  assumes "\<forall>x \<in> set (entriesOf ixs). plainKind x"
  shows "set (triplesOf (mergeNarrativeIndices ixs)) = set (triplesOf (entriesOf ixs))"
proof
  show "set (triplesOf (mergeNarrativeIndices ixs)) \<subseteq> set (triplesOf (entriesOf ixs))"
    using merge_subset [of ixs] by (auto simp: triplesOf_def)
next
  show "set (triplesOf (entriesOf ixs)) \<subseteq> set (triplesOf (mergeNarrativeIndices ixs))"
  proof
    fix t assume "t \<in> set (triplesOf (entriesOf ixs))"
    then obtain e where e: "e \<in> set (entriesOf ixs)" and t: "t = keyTriple e"
      by (auto simp: triplesOf_def)
    from e have "itemKey e \<in> set (keysOf (entriesOf ixs))"
      by (simp add: keysOf_def)
    then have "itemKey e \<in> set (keysOf (mergeNarrativeIndices ixs))"
      by (simp only: merge_keys)
    then obtain m where m: "m \<in> set (mergeNarrativeIndices ixs)" and k: "itemKey m = itemKey e"
      by (auto simp: keysOf_def)
    from m merge_subset [of ixs] have "m \<in> set (entriesOf ixs)" by blast
    with assms e have "plainKind m" "plainKind e" by simp_all
    from key_imp_triple [OF this k] have "keyTriple m = t" by (simp add: t)
    with m show "t \<in> set (triplesOf (mergeNarrativeIndices ixs))"
      by (auto simp: triplesOf_def)
  qed
qed

lemma merge_triples_distinct: "distinct (triplesOf (mergeNarrativeIndices ixs))"
proof -
  have d: "distinct (map itemKey (mergeNarrativeIndices ixs))"
    using merge_distinct [of ixs] by (simp add: keysOf_def)
  then have "distinct (mergeNarrativeIndices ixs)"
    and i: "inj_on itemKey (set (mergeNarrativeIndices ixs))"
    by (simp_all add: distinct_map)
  moreover have "inj_on keyTriple (set (mergeNarrativeIndices ixs))"
  proof (rule inj_onI)
    fix x y assume "x \<in> set (mergeNarrativeIndices ixs)" "y \<in> set (mergeNarrativeIndices ixs)"
      and "keyTriple x = keyTriple y"
    with i triple_imp_key [of x y] show "x = y"
      by (auto dest: inj_onD)
  qed
  ultimately show ?thesis
    by (simp add: triplesOf_def distinct_map)
qed

text \<open>
  C5. For a sequence of fact-lists and any permutation of it, the merge results have the
  same set of dedup keys: it is the set of keys of all input entries (no key is
  dropped), and no key occurs twice in either result. The key is the string the code
  builds; the same holds of the triples (type, subtype-or-level, value-or-title) when
  the first two components of the entries hold no hyphen, as they do in every entry
  that \<^verbatim>\<open>extractNarrativeIndex\<close> builds.
\<close>

theorem merge_permutation_keys:
  assumes "mset perm = mset indices"
  shows "set (keysOf (mergeNarrativeIndices perm)) = set (keysOf (mergeNarrativeIndices indices))
       \<and> set (keysOf (mergeNarrativeIndices indices)) = set (keysOf (entriesOf indices))
       \<and> distinct (keysOf (mergeNarrativeIndices perm))
       \<and> distinct (keysOf (mergeNarrativeIndices indices))
       \<and> distinct (triplesOf (mergeNarrativeIndices perm))
       \<and> distinct (triplesOf (mergeNarrativeIndices indices))
       \<and> ((\<forall>x \<in> set (entriesOf indices). plainKind x) \<longrightarrow>
            set (triplesOf (mergeNarrativeIndices perm)) = set (triplesOf (mergeNarrativeIndices indices))
            \<and> set (triplesOf (mergeNarrativeIndices indices)) = set (triplesOf (entriesOf indices)))"
proof -
  have s: "set (entriesOf perm) = set (entriesOf indices)"
    using assms by (rule entriesOf_mset)
  then have k: "set (keysOf (entriesOf perm)) = set (keysOf (entriesOf indices))"
    by (simp add: keysOf_def)
  have t: "set (triplesOf (mergeNarrativeIndices perm)) = set (triplesOf (mergeNarrativeIndices indices))
            \<and> set (triplesOf (mergeNarrativeIndices indices)) = set (triplesOf (entriesOf indices))"
    if p: "\<forall>x \<in> set (entriesOf indices). plainKind x"
  proof -
    from p s have "\<forall>x \<in> set (entriesOf perm). plainKind x" by simp
    then have "set (triplesOf (mergeNarrativeIndices perm)) = set (triplesOf (entriesOf perm))"
      by (rule merge_triples)
    moreover have "set (triplesOf (entriesOf perm)) = set (triplesOf (entriesOf indices))"
      using s by (simp add: triplesOf_def)
    moreover have "set (triplesOf (mergeNarrativeIndices indices)) = set (triplesOf (entriesOf indices))"
      using p by (rule merge_triples)
    ultimately show ?thesis by simp
  qed
  from k t show ?thesis
    by (simp add: merge_keys merge_distinct merge_triples_distinct)
qed


section \<open>Keys of the example entries\<close>

lemma key_entrySection: "itemKey entrySection = ''section-2-Intro''"
  by (simp add: itemKey_def entrySection_def getProp_def js_or_def showNat.simps digitChar_def)

lemma key_entrySectionAgain: "itemKey entrySectionAgain = ''section-2-Intro''"
  by (simp add: itemKey_def entrySectionAgain_def getProp_def js_or_def showNat.simps digitChar_def)

lemma key_entryDate: "itemKey entryDate = ''entity-date-2024-01-02''"
  by (simp add: itemKey_def entryDate_def getProp_def js_or_def)

lemma triple_entrySection: "keyTriple entrySection = (''section'', ''2'', ''Intro'')"
  by (simp add: keyTriple_def entrySection_def getProp_def js_or_def showNat.simps digitChar_def)

lemma triple_entrySectionAgain: "keyTriple entrySectionAgain = (''section'', ''2'', ''Intro'')"
  by (simp add: keyTriple_def entrySectionAgain_def getProp_def js_or_def showNat.simps digitChar_def)

lemma triple_entryDate: "keyTriple entryDate = (''entity'', ''date'', ''2024-01-02'')"
  by (simp add: keyTriple_def entryDate_def getProp_def js_or_def)

theorem merge_permutation_keys_witness:
  "mset [Some [entryDate, entrySectionAgain], Some [entrySection], None]
     = mset [Some [entrySection], None, Some [entryDate, entrySectionAgain]]
   \<and> plainKind entrySection \<and> plainKind entryDate \<and> plainKind entrySectionAgain
   \<and> set (keysOf (mergeNarrativeIndices [Some [entryDate, entrySectionAgain], Some [entrySection], None]))
     = {''section-2-Intro'', ''entity-date-2024-01-02''}
   \<and> set (keysOf (mergeNarrativeIndices [Some [entrySection], None, Some [entryDate, entrySectionAgain]]))
     = {''section-2-Intro'', ''entity-date-2024-01-02''}
   \<and> distinct (keysOf (mergeNarrativeIndices [Some [entryDate, entrySectionAgain], Some [entrySection], None]))
   \<and> set (triplesOf (mergeNarrativeIndices [Some [entryDate, entrySectionAgain], Some [entrySection], None]))
     = {(''section'', ''2'', ''Intro''), (''entity'', ''date'', ''2024-01-02'')}
   \<and> set (triplesOf (mergeNarrativeIndices [Some [entrySection], None, Some [entryDate, entrySectionAgain]]))
     = {(''section'', ''2'', ''Intro''), (''entity'', ''date'', ''2024-01-02'')}"
proof -
  have m: "mset [Some [entryDate, entrySectionAgain], Some [entrySection], None]
     = mset [Some [entrySection], None, Some [entryDate, entrySectionAgain]]"
    by simp
  have p: "plainKind entrySection \<and> plainKind entryDate \<and> plainKind entrySectionAgain"
    by (simp add: plainKind_def triple_entrySection triple_entryDate triple_entrySectionAgain)
  then have pa: "\<forall>x \<in> set (entriesOf [Some [entrySection], None, Some [entryDate, entrySectionAgain]]).
      plainKind x"
    by (simp add: entriesOf_def)
  have e: "set (keysOf (entriesOf [Some [entrySection], None, Some [entryDate, entrySectionAgain]]))
     = {''section-2-Intro'', ''entity-date-2024-01-02''}"
    by (auto simp: keysOf_def entriesOf_def key_entrySection key_entrySectionAgain key_entryDate)
  have t: "set (triplesOf (entriesOf [Some [entrySection], None, Some [entryDate, entrySectionAgain]]))
     = {(''section'', ''2'', ''Intro''), (''entity'', ''date'', ''2024-01-02'')}"
    by (auto simp: triplesOf_def entriesOf_def triple_entrySection triple_entrySectionAgain
        triple_entryDate)
  from merge_permutation_keys [OF m] pa e t m p show ?thesis by simp
qed


section \<open>Writes to the store\<close>

lemma getReports_length:
  "StorageManager_getReports env d caseId = Inr reps \<Longrightarrow>
   length reps = length (ofCase caseId (reports d))"
  by (auto simp: StorageManager_getReports_def IndexedDBStorage_getReports_def split: if_splits)

lemma saveCaseMetadata_result:
  "StorageManager_saveCaseMetadata env d caseId data = Inr d2 \<Longrightarrow>
   d2 = d\<lparr>case_metadata := (case_metadata d)(caseId \<mapsto> data(''caseId'' \<mapsto> JStr caseId))\<rparr>"
  by (auto simp: StorageManager_saveCaseMetadata_def IndexedDBStorage_saveCaseMetadata_def
      split: if_splits)

lemma saveReportToDB_example:
  "saveReportToDB envOk ''2024-01-03T00:00:00.000Z'' ''2024-01-03T00:00:01.000Z'' appEmpty
     ''case-1'' ''# Report'' [''a.pdf'']
   = Inr \<lparr>store = \<lparr>reports =
                      [[''content'' \<mapsto> JStr ''# Report'', ''evidence'' \<mapsto> JArr [JStr ''a.pdf''],
                        ''reportHash'' \<mapsto> JStr ''9f86d081'',
                        ''narrativeIndex'' \<mapsto> JArr [JObj entrySection, JObj entryDate],
                        ''caseId'' \<mapsto> JStr ''case-1'',
                        ''timestamp'' \<mapsto> JStr ''2024-01-03T00:00:00.000Z'']],
                    evidence_files = [],
                    case_metadata =
                      [''case-1'' \<mapsto>
                         [''reportCount'' \<mapsto> JNum 1, ''evidenceCount'' \<mapsto> JNum 1,
                          ''lastReportHash'' \<mapsto> JStr ''9f86d081'',
                          ''narrativeIndex'' \<mapsto> JArr [JObj entrySection, JObj entryDate],
                          ''updatedAt'' \<mapsto> JStr ''2024-01-03T00:00:01.000Z'',
                          ''caseId'' \<mapsto> JStr ''case-1'']]\<rparr>,
          console = []\<rparr>"
  by (simp add: saveReportToDB_def StorageManager_saveReport_def IndexedDBStorage_saveReport_def
      StorageManager_getReports_def IndexedDBStorage_getReports_def ofCase_def
      StorageManager_saveCaseMetadata_def IndexedDBStorage_saveCaseMetadata_def
      indexOfReport_def asEntry_def getProp_def js_or_def caseAggregate_def
      mergeNarrativeIndices_def key_entrySection key_entryDate
      envOk_def appEmpty_def dbEmpty_def Let_def)

text \<open>
  C9. A report or evidence write with an empty \<^verbatim>\<open>caseId\<close> is a silent no-op: the call
  is fulfilled, nothing is stored, nothing is logged, the state is the one before.
\<close>

theorem empty_caseId_noop:
  "saveReportToDB env tSave tUpdate a [] content evidence = Inr a
   \<and> saveEvidenceFileToDB env now a [] f fileHash metadata = Inr a"
  by (simp add: saveReportToDB_def saveEvidenceFileToDB_def)

text \<open>
  C10. The record that a successful \<^verbatim>\<open>saveReport\<close> or \<^verbatim>\<open>saveEvidence\<close> of the local
  store appends has the \<^verbatim>\<open>caseId\<close> of the call and the timestamp taken at the save,
  whatever \<^verbatim>\<open>caseId\<close> and \<^verbatim>\<open>timestamp\<close> the data carries; the records stored before
  stay as they are.
\<close>

theorem persisted_caseId_timestamp:
  "(IndexedDBStorage_saveReport env now d caseId data = Inr d' \<longrightarrow>
      butlast (reports d') = reports d
      \<and> last (reports d') ''caseId'' = Some (JStr caseId)
      \<and> last (reports d') ''timestamp'' = Some (JStr now))
   \<and> (IndexedDBStorage_saveEvidence env now d caseId data = Inr d'' \<longrightarrow>
      butlast (evidence_files d'') = evidence_files d
      \<and> last (evidence_files d'') ''caseId'' = Some (JStr caseId)
      \<and> last (evidence_files d'') ''timestamp'' = Some (JStr now))"
  by (auto simp: IndexedDBStorage_saveReport_def IndexedDBStorage_saveEvidence_def split: if_splits)

theorem persisted_caseId_timestamp_witness:
  "dataConflicting ''caseId'' = Some (JStr ''other-case'')
   \<and> dataConflicting ''timestamp'' = Some (JStr ''1999-12-31T23:59:59.000Z'')
   \<and> IndexedDBStorage_saveReport envOk ''2024-01-03T00:00:00.000Z'' dbEmpty ''case-1'' dataConflicting
       = Inr (dbEmpty\<lparr>reports := [dataConflicting(''caseId'' \<mapsto> JStr ''case-1'',
                ''timestamp'' \<mapsto> JStr ''2024-01-03T00:00:00.000Z'')]\<rparr>)
   \<and> last (reports (dbEmpty\<lparr>reports := [dataConflicting(''caseId'' \<mapsto> JStr ''case-1'',
                ''timestamp'' \<mapsto> JStr ''2024-01-03T00:00:00.000Z'')]\<rparr>)) ''caseId''
       = Some (JStr ''case-1'')
   \<and> last (reports (dbEmpty\<lparr>reports := [dataConflicting(''caseId'' \<mapsto> JStr ''case-1'',
                ''timestamp'' \<mapsto> JStr ''2024-01-03T00:00:00.000Z'')]\<rparr>)) ''timestamp''
       = Some (JStr ''2024-01-03T00:00:00.000Z'')
   \<and> IndexedDBStorage_saveEvidence envOk ''2024-01-03T00:00:00.000Z'' dbEmpty ''case-1'' dataConflicting
       = Inr (dbEmpty\<lparr>evidence_files := [dataConflicting(''caseId'' \<mapsto> JStr ''case-1'',
                ''timestamp'' \<mapsto> JStr ''2024-01-03T00:00:00.000Z'')]\<rparr>)
   \<and> last (evidence_files (dbEmpty\<lparr>evidence_files := [dataConflicting(''caseId'' \<mapsto> JStr ''case-1'',
                ''timestamp'' \<mapsto> JStr ''2024-01-03T00:00:00.000Z'')]\<rparr>)) ''caseId''
       = Some (JStr ''case-1'')"
proof -
  let ?r = "dataConflicting(''caseId'' \<mapsto> JStr ''case-1'',
              ''timestamp'' \<mapsto> JStr ''2024-01-03T00:00:00.000Z'')"
  have c: "dataConflicting ''caseId'' = Some (JStr ''other-case'')
         \<and> dataConflicting ''timestamp'' = Some (JStr ''1999-12-31T23:59:59.000Z'')"
    by (simp add: dataConflicting_def)
  have r: "IndexedDBStorage_saveReport envOk ''2024-01-03T00:00:00.000Z'' dbEmpty ''case-1'' dataConflicting
       = Inr (dbEmpty\<lparr>reports := [?r]\<rparr>)"
    by (simp add: IndexedDBStorage_saveReport_def envOk_def dbEmpty_def)
  have e: "IndexedDBStorage_saveEvidence envOk ''2024-01-03T00:00:00.000Z'' dbEmpty ''case-1'' dataConflicting
       = Inr (dbEmpty\<lparr>evidence_files := [?r]\<rparr>)"
    by (simp add: IndexedDBStorage_saveEvidence_def envOk_def dbEmpty_def)
  from persisted_caseId_timestamp [of envOk "''2024-01-03T00:00:00.000Z''" dbEmpty "''case-1''"
      dataConflicting "dbEmpty\<lparr>reports := [?r]\<rparr>" "dbEmpty\<lparr>evidence_files := [?r]\<rparr>"] c r e
  show ?thesis by blast
qed

text \<open>
  C2, as the code has it. When the local store fails on the write of a report or of
  an evidence file with a non-empty \<^verbatim>\<open>caseId\<close>, \<^verbatim>\<open>StorageManager.saveReport\<close> and
  \<^verbatim>\<open>StorageManager.saveEvidence\<close> are rejected with the storage error. The enclosing
  \<^verbatim>\<open>saveReportToDB\<close> and \<^verbatim>\<open>saveEvidenceFileToDB\<close> catch it, write it to the console
  and are fulfilled, with the store unchanged.
\<close>

theorem local_failure_caught:
  assumes "caseId \<noteq> []"
  shows "(fails env (SaveReport caseId) \<longrightarrow>
           StorageManager_saveReport env now (store a) caseId content evidence metadata
             = Inl (StorageError (SaveReport caseId))
           \<and> saveReportToDB env now tUpdate a caseId content evidence
             = Inr (a\<lparr>console := console a
                      @ [(''Failed to save report'', StorageError (SaveReport caseId))]\<rparr>))
       \<and> (fails env (SaveEvidence caseId) \<longrightarrow>
           StorageManager_saveEvidence env now (store a) caseId f fileHash meta
             = Inl (StorageError (SaveEvidence caseId))
           \<and> saveEvidenceFileToDB env now a caseId f fileHash meta
             = Inr (a\<lparr>console := console a
                      @ [(''Failed to save evidence file'', StorageError (SaveEvidence caseId))]\<rparr>))"
  using assms
  by (simp add: StorageManager_saveReport_def StorageManager_saveEvidence_def
      IndexedDBStorage_saveReport_def IndexedDBStorage_saveEvidence_def
      saveReportToDB_def saveEvidenceFileToDB_def console_error_def Let_def)

theorem local_failure_caught_witness:
  "''case-1'' \<noteq> [] \<and> fails envFailing (SaveReport ''case-1'') \<and> fails envFailing (SaveEvidence ''case-1'')
   \<and> StorageManager_saveReport envFailing ''2024-01-03T00:00:00.000Z'' (store appEmpty) ''case-1''
        ''# Report'' [''a.pdf''] Map.empty
       = Inl (StorageError (SaveReport ''case-1''))
   \<and> saveReportToDB envFailing ''2024-01-03T00:00:00.000Z'' ''2024-01-03T00:00:01.000Z'' appEmpty
        ''case-1'' ''# Report'' [''a.pdf'']
       = Inr (appEmpty\<lparr>console := console appEmpty
                @ [(''Failed to save report'', StorageError (SaveReport ''case-1''))]\<rparr>)
   \<and> StorageManager_saveEvidence envFailing ''2024-01-03T00:00:00.000Z'' (store appEmpty) ''case-1''
        fileA ''ab12'' JNull
       = Inl (StorageError (SaveEvidence ''case-1''))
   \<and> saveEvidenceFileToDB envFailing ''2024-01-03T00:00:00.000Z'' appEmpty ''case-1'' fileA ''ab12'' JNull
       = Inr (appEmpty\<lparr>console := console appEmpty
                @ [(''Failed to save evidence file'', StorageError (SaveEvidence ''case-1''))]\<rparr>)"
proof -
  have n: "''case-1'' \<noteq> []" by simp
  have f: "fails envFailing (SaveReport ''case-1'') \<and> fails envFailing (SaveEvidence ''case-1'')"
    by (simp add: envFailing_def)
  from local_failure_caught [OF n, of envFailing "''2024-01-03T00:00:00.000Z''" appEmpty
      "''# Report''" "[''a.pdf'']" Map.empty "''2024-01-03T00:00:01.000Z''" fileA "''ab12''" JNull] f n
  show ?thesis by blast
qed

text \<open>
  C2 as stated fails: with the local store failing on the write, \<^verbatim>\<open>saveReportToDB\<close> and
  \<^verbatim>\<open>saveEvidenceFileToDB\<close> are not rejected; their caller receives a fulfilled promise.
\<close>

theorem storage_error_swallowed_counterexample:
  "fails envFailing (SaveReport ''case-1'') \<and> fails envFailing (SaveEvidence ''case-1'')
   \<and> \<not> isl (saveReportToDB envFailing ''2024-01-03T00:00:00.000Z'' ''2024-01-03T00:00:01.000Z''
               appEmpty ''case-1'' ''# Report'' [''a.pdf''])
   \<and> \<not> isl (saveEvidenceFileToDB envFailing ''2024-01-03T00:00:00.000Z'' appEmpty ''case-1''
               fileA ''ab12'' JNull)"
  by (simp add: saveReportToDB_def saveEvidenceFileToDB_def StorageManager_saveReport_def
      StorageManager_saveEvidence_def IndexedDBStorage_saveReport_def
      IndexedDBStorage_saveEvidence_def envFailing_def Let_def)

text \<open>
  C1, as the code has it. After a report save for a non-empty \<^verbatim>\<open>caseId\<close> that logs no
  failure (the save, the re-read and the upsert of the aggregate all succeeded), the
  stored aggregate's \<^verbatim>\<open>reportCount\<close> is the number of report records stored for the
  case, and its \<^verbatim>\<open>evidenceCount\<close> is the number of evidence names passed to the save.
\<close>

theorem aggregate_counts_after_save:
  assumes "caseId \<noteq> []"
      and "saveReportToDB env tSave tUpdate a caseId content evidence = Inr a'"
      and "console a' = console a"
  shows "storedField ''reportCount'' caseId (store a')
           = Some (JNum (int (length (ofCase caseId (reports (store a'))))))
       \<and> storedField ''evidenceCount'' caseId (store a') = Some (JNum (int (length evidence)))"
  using assms
  by (auto simp: saveReportToDB_def Let_def console_error_def storedField_def caseAggregate_def
      split: sum.splits option.splits dest!: saveCaseMetadata_result getReports_length)

theorem aggregate_counts_after_save_witness:
  "''case-1'' \<noteq> []
   \<and> console (projr (saveReportToDB envOk ''2024-01-03T00:00:00.000Z'' ''2024-01-03T00:00:01.000Z''
        appEmpty ''case-1'' ''# Report'' [''a.pdf''])) = console appEmpty
   \<and> storedField ''reportCount'' ''case-1''
        (store (projr (saveReportToDB envOk ''2024-01-03T00:00:00.000Z'' ''2024-01-03T00:00:01.000Z''
           appEmpty ''case-1'' ''# Report'' [''a.pdf''])))
       = Some (JNum 1)
   \<and> storedField ''evidenceCount'' ''case-1''
        (store (projr (saveReportToDB envOk ''2024-01-03T00:00:00.000Z'' ''2024-01-03T00:00:01.000Z''
           appEmpty ''case-1'' ''# Report'' [''a.pdf''])))
       = Some (JNum 1)"
proof -
  let ?call = "saveReportToDB envOk ''2024-01-03T00:00:00.000Z'' ''2024-01-03T00:00:01.000Z''
                 appEmpty ''case-1'' ''# Report'' [''a.pdf'']"
  have n: "''case-1'' \<noteq> []" by simp
  have r: "?call = Inr (projr ?call)"
    by (simp add: saveReportToDB_example)
  have "console appEmpty = []"
    by (simp add: appEmpty_def)
  then have c: "console (projr ?call) = console appEmpty"
    by (simp add: saveReportToDB_example)
  have l: "length (ofCase ''case-1'' (reports (store (projr ?call)))) = 1"
    by (simp add: saveReportToDB_example ofCase_def)
  from aggregate_counts_after_save [OF n r c] l n c show ?thesis by simp
qed

text \<open>
  C1 as stated fails: the first report saved for a case, with one evidence name, stores
  \<^verbatim>\<open>evidenceCount\<close> 1 while no evidence record is stored for the case.
\<close>

theorem evidenceCount_counterexample:
  "storedField ''evidenceCount'' ''case-1''
     (store (projr (saveReportToDB envOk ''2024-01-03T00:00:00.000Z'' ''2024-01-03T00:00:01.000Z''
        appEmpty ''case-1'' ''# Report'' [''a.pdf''])))
     = Some (JNum 1)
   \<and> length (ofCase ''case-1'' (evidence_files
       (store (projr (saveReportToDB envOk ''2024-01-03T00:00:00.000Z'' ''2024-01-03T00:00:01.000Z''
          appEmpty ''case-1'' ''# Report'' [''a.pdf'']))))) = 0
   \<and> console (projr (saveReportToDB envOk ''2024-01-03T00:00:00.000Z'' ''2024-01-03T00:00:01.000Z''
        appEmpty ''case-1'' ''# Report'' [''a.pdf''])) = []"
  by (simp add: saveReportToDB_example storedField_def ofCase_def)

text \<open>
  C3. \<^verbatim>\<open>saveCaseMetadata\<close> of the local store replaces the record of the case: the
  \<^verbatim>\<open>tags\<close> stored for \<^verbatim>\<open>case-1\<close> are gone after an update that names only
  \<^verbatim>\<open>reportCount\<close>.
\<close>

theorem saveCaseMetadata_drops_unnamed_fields:
  "storedField ''tags'' ''case-1'' dbTagged = Some (JArr [JStr ''fraud''])
   \<and> \<not> isl (StorageManager_saveCaseMetadata envOk dbTagged ''case-1'' [''reportCount'' \<mapsto> JNum 2])
   \<and> storedField ''reportCount'' ''case-1''
        (projr (StorageManager_saveCaseMetadata envOk dbTagged ''case-1'' [''reportCount'' \<mapsto> JNum 2]))
       = Some (JNum 2)
   \<and> storedField ''tags'' ''case-1''
        (projr (StorageManager_saveCaseMetadata envOk dbTagged ''case-1'' [''reportCount'' \<mapsto> JNum 2]))
       = None"
  by (simp add: StorageManager_saveCaseMetadata_def IndexedDBStorage_saveCaseMetadata_def
      storedField_def dbTagged_def dbEmpty_def envOk_def)


section \<open>The export\<close>

lemma redactBinary_strip: "redactBinary (stripBinary e) = redactBinary e"
  by (simp add: redactBinary_def stripBinary_def getProp_def)

lemma ofCase_strip: "ofCase caseId (map stripBinary es) = map stripBinary (ofCase caseId es)"
  by (induction es) (simp_all add: ofCase_def stripBinary_def)

lemma redact_ofCase:
  "map redactBinary (ofCase caseId es) = map redactBinary (ofCase caseId (map stripBinary es))"
  by (simp add: ofCase_strip o_def redactBinary_strip)

lemma redact_ofCase_eq:
  assumes "map stripBinary es1 = map stripBinary es2"
  shows "map redactBinary (ofCase caseId es1) = map redactBinary (ofCase caseId es2)"
  using assms redact_ofCase [of caseId es1] redact_ofCase [of caseId es2] by simp

lemma caseExport_eq:
  assumes "map redactBinary ev1 = map redactBinary ev2"
  shows "caseExport reps ev1 metadata = caseExport reps ev2 metadata"
proof -
  have "map (\<lambda>e. JObj (redactBinary e)) ev1 = map (\<lambda>e. JObj (redactBinary e)) ev2"
    using arg_cong [OF assms, of "map JObj"] by (simp add: o_def)
  then show ?thesis
    by (simp add: caseExport_def)
qed

lemma exportCases_eq:
  assumes "reports d1 = reports d2" and "case_metadata d1 = case_metadata d2"
      and "map stripBinary (evidence_files d1) = map stripBinary (evidence_files d2)"
  shows "exportCases env d1 cases acc = exportCases env d2 cases acc"
proof (induction cases arbitrary: acc)
  case Nil
  show ?case by simp
next
  case (Cons caseId rest)
  have r: "StorageManager_getReports env d1 caseId = StorageManager_getReports env d2 caseId"
    using assms(1) by (simp add: StorageManager_getReports_def IndexedDBStorage_getReports_def)
  have m: "StorageManager_getCaseMetadata env d1 caseId = StorageManager_getCaseMetadata env d2 caseId"
    using assms(2) by (simp add: StorageManager_getCaseMetadata_def IndexedDBStorage_getCaseMetadata_def)
  have e: "caseExport reps (ofCase caseId (evidence_files d1)) metadata
         = caseExport reps (ofCase caseId (evidence_files d2)) metadata" for reps metadata
    by (rule caseExport_eq) (rule redact_ofCase_eq [OF assms(3)])
  show ?case
  proof (cases "StorageManager_getReports env d2 caseId")
    case (Inl x)
    with r show ?thesis by simp
  next
    case reps: (Inr reps)
    show ?thesis
    proof (cases "fails env (GetEvidence caseId)")
      case True
      with r reps show ?thesis
        by (simp add: StorageManager_getEvidence_def IndexedDBStorage_getEvidence_def)
    next
      case ok: False
      show ?thesis
      proof (cases "StorageManager_getCaseMetadata env d2 caseId")
        case (Inl x)
        with r m reps ok show ?thesis
          by (simp add: StorageManager_getEvidence_def IndexedDBStorage_getEvidence_def)
      next
        case meta: (Inr metadata)
        let ?acc1 = "acc(caseId \<mapsto> caseExport reps (ofCase caseId (evidence_files d1)) metadata)"
        let ?acc2 = "acc(caseId \<mapsto> caseExport reps (ofCase caseId (evidence_files d2)) metadata)"
        have "exportCases env d1 (caseId # rest) acc = exportCases env d1 rest ?acc1"
          using r m reps ok meta
          by (simp add: StorageManager_getEvidence_def IndexedDBStorage_getEvidence_def)
        also have "?acc1 = ?acc2"
          by (simp only: e)
        also have "exportCases env d1 rest ?acc2 = exportCases env d2 rest ?acc2"
          by (rule Cons.IH)
        also have "\<dots> = exportCases env d2 (caseId # rest) acc"
          using reps ok meta
          by (simp add: StorageManager_getEvidence_def IndexedDBStorage_getEvidence_def)
        finally show ?thesis .
      qed
    qed
  qed
qed

lemma exportCases_entry:
  "exportCases env d cases acc = Inr exported \<Longrightarrow> caseId \<in> set cases \<Longrightarrow>
   \<exists>reps metadata. exported caseId = Some (caseExport reps (ofCase caseId (evidence_files d)) metadata)"
proof (induction cases arbitrary: acc)
  case Nil
  then show ?case by simp
next
  case (Cons c rest)
  from Cons.prems(1) obtain reps metadata where
    step: "exportCases env d rest (acc(c \<mapsto> caseExport reps (ofCase c (evidence_files d)) metadata))
             = Inr exported"
    by (auto simp: StorageManager_getEvidence_def IndexedDBStorage_getEvidence_def
        split: sum.splits if_splits)
  show ?case
  proof (cases "caseId \<in> set rest")
    case True
    from Cons.IH [OF step True] show ?thesis .
  next
    case False
    with Cons.prems(2) have c: "caseId = c" by simp
    have keep: "exportCases env d cs acc' = Inr exported' \<Longrightarrow> k \<notin> set cs \<Longrightarrow> exported' k = acc' k"
      for cs acc' exported' k
      by (induction cs arbitrary: acc') (auto split: sum.splits)
    from keep [OF step] False c show ?thesis by auto
  qed
qed

text \<open>
  C6. The exported document does not depend on the bytes of any \<^verbatim>\<open>binaryData\<close>: two
  stores that differ only in the \<^verbatim>\<open>binaryData\<close> of their evidence records export the
  same. The evidence of an exported case is the list of its stored records, each with
  \<^verbatim>\<open>binaryData\<close> replaced by the string \<^verbatim>\<open><BINARY n bytes>\<close>, \<open>n\<close> being the record's
  \<^verbatim>\<open>fileSize\<close>.
\<close>

theorem export_redaction:
  "(reports d1 = reports d2 \<and> case_metadata d1 = case_metadata d2
      \<and> map stripBinary (evidence_files d1) = map stripBinary (evidence_files d2)
      \<longrightarrow> exportAllData env now d1 = exportAllData env now d2)
   \<and> (exportAllData env now d = Inr doc \<and> StorageManager_getAllCases env d = Inr cases
      \<and> caseId \<in> set cases
      \<longrightarrow> exportedEvidence doc caseId
          = Some (JArr (map (\<lambda>e. JObj (e(''binaryData'' \<mapsto>
                     JStr (''<BINARY '' @ toStr (getProp e ''fileSize'') @ '' bytes>''))))
                   (ofCase caseId (evidence_files d)))))"
proof (intro conjI impI)
  assume a: "reports d1 = reports d2 \<and> case_metadata d1 = case_metadata d2
      \<and> map stripBinary (evidence_files d1) = map stripBinary (evidence_files d2)"
  then have "StorageManager_getAllCases env d1 = StorageManager_getAllCases env d2"
    by (simp add: StorageManager_getAllCases_def IndexedDBStorage_getAllCases_def)
  moreover have "exportCases env d1 cs Map.empty = exportCases env d2 cs Map.empty" for cs
    using a by (intro exportCases_eq) simp_all
  ultimately show "exportAllData env now d1 = exportAllData env now d2"
    by (simp add: exportAllData_def split: sum.splits)
next
  assume a: "exportAllData env now d = Inr doc \<and> StorageManager_getAllCases env d = Inr cases
      \<and> caseId \<in> set cases"
  then obtain exported where ex: "exportCases env d cases Map.empty = Inr exported"
    and doc: "doc = [''cases'' \<mapsto> JObj exported, ''exportedAt'' \<mapsto> JStr now]"
    by (auto simp: exportAllData_def split: sum.splits)
  from exportCases_entry [OF ex] a obtain reps metadata where
    "exported caseId = Some (caseExport reps (ofCase caseId (evidence_files d)) metadata)"
    by blast
  with doc show "exportedEvidence doc caseId
          = Some (JArr (map (\<lambda>e. JObj (e(''binaryData'' \<mapsto>
                     JStr (''<BINARY '' @ toStr (getProp e ''fileSize'') @ '' bytes>''))))
                   (ofCase caseId (evidence_files d))))"
    by (simp add: exportedEvidence_def caseExport_def redactBinary_def)
qed

lemma export_example:
  "exportAllData envOk ''2024-01-04T00:00:00.000Z'' (dbWithPayload bytes)
   = Inr [''cases'' \<mapsto> JObj [''case-1'' \<mapsto>
             caseExport (reports (dbWithPayload bytes))
               (evidence_files (dbWithPayload bytes)) None],
          ''exportedAt'' \<mapsto> JStr ''2024-01-04T00:00:00.000Z'']"
  by (simp add: exportAllData_def StorageManager_getAllCases_def IndexedDBStorage_getAllCases_def
      StorageManager_getReports_def IndexedDBStorage_getReports_def
      StorageManager_getEvidence_def IndexedDBStorage_getEvidence_def
      StorageManager_getCaseMetadata_def IndexedDBStorage_getCaseMetadata_def
      firstSeen_def List.map_filter_def caseIdOf_def ofCase_def envOk_def dbWithPayload_def)

theorem export_redaction_witness:
  "reports (dbWithPayload [37, 80, 68]) = reports (dbWithPayload [1, 2, 3])
   \<and> case_metadata (dbWithPayload [37, 80, 68]) = case_metadata (dbWithPayload [1, 2, 3])
   \<and> map stripBinary (evidence_files (dbWithPayload [37, 80, 68]))
       = map stripBinary (evidence_files (dbWithPayload [1, 2, 3]))
   \<and> evidence_files (dbWithPayload [37, 80, 68]) \<noteq> evidence_files (dbWithPayload [1, 2, 3])
   \<and> exportAllData envOk ''2024-01-04T00:00:00.000Z'' (dbWithPayload [37, 80, 68])
       = exportAllData envOk ''2024-01-04T00:00:00.000Z'' (dbWithPayload [1, 2, 3])
   \<and> StorageManager_getAllCases envOk (dbWithPayload [37, 80, 68]) = Inr [''case-1'']
   \<and> exportedEvidence
        (projr (exportAllData envOk ''2024-01-04T00:00:00.000Z'' (dbWithPayload [37, 80, 68])))
        ''case-1''
       = Some (JArr [JObj [''fileName'' \<mapsto> JStr ''a.pdf'', ''fileSize'' \<mapsto> JNum 3,
                           ''binaryData'' \<mapsto> JStr ''<BINARY 3 bytes>'',
                           ''caseId'' \<mapsto> JStr ''case-1'',
                           ''timestamp'' \<mapsto> JStr ''2024-01-01T01:00:00.000Z'']])"
proof -
  let ?d1 = "dbWithPayload [37, 80, 68]" and ?d2 = "dbWithPayload [1, 2, 3]"
  let ?now = "''2024-01-04T00:00:00.000Z''"
  have h1: "reports ?d1 = reports ?d2 \<and> case_metadata ?d1 = case_metadata ?d2
      \<and> map stripBinary (evidence_files ?d1) = map stripBinary (evidence_files ?d2)"
    by (simp add: dbWithPayload_def stripBinary_def)
  have ne: "evidence_files ?d1 \<noteq> evidence_files ?d2"
  proof
    assume "evidence_files ?d1 = evidence_files ?d2"
    then have "hd (evidence_files ?d1) ''binaryData'' = hd (evidence_files ?d2) ''binaryData''"
      by simp
    then show False by (simp add: dbWithPayload_def)
  qed
  have ex: "exportAllData envOk ?now ?d1 = Inr (projr (exportAllData envOk ?now ?d1))"
    by (simp add: export_example)
  have cs: "StorageManager_getAllCases envOk ?d1 = Inr [''case-1'']"
    by (simp add: StorageManager_getAllCases_def IndexedDBStorage_getAllCases_def firstSeen_def
        List.map_filter_def caseIdOf_def envOk_def dbWithPayload_def)
  have ev: "map (\<lambda>e. JObj (e(''binaryData'' \<mapsto>
                     JStr (''<BINARY '' @ toStr (getProp e ''fileSize'') @ '' bytes>''))))
              (ofCase ''case-1'' (evidence_files ?d1))
            = [JObj [''fileName'' \<mapsto> JStr ''a.pdf'', ''fileSize'' \<mapsto> JNum 3,
                           ''binaryData'' \<mapsto> JStr ''<BINARY 3 bytes>'',
                           ''caseId'' \<mapsto> JStr ''case-1'',
                           ''timestamp'' \<mapsto> JStr ''2024-01-01T01:00:00.000Z'']]"
    by (simp add: ofCase_def dbWithPayload_def getProp_def showNat.simps digitChar_def fun_upd_twist)
  have m: "''case-1'' \<in> set [''case-1'']" by simp
  have t1: "exportAllData envOk ?now ?d1 = exportAllData envOk ?now ?d2"
    using export_redaction [of ?d1 ?d2 envOk ?now ?d1 "projr (exportAllData envOk ?now ?d1)"
      "[''case-1'']" "''case-1''"] h1 by blast
  have t2: "exportedEvidence (projr (exportAllData envOk ?now ?d1)) ''case-1''
            = Some (JArr (map (\<lambda>e. JObj (e(''binaryData'' \<mapsto>
                     JStr (''<BINARY '' @ toStr (getProp e ''fileSize'') @ '' bytes>''))))
                (ofCase ''case-1'' (evidence_files ?d1))))"
    using export_redaction [of ?d1 ?d2 envOk ?now ?d1 "projr (exportAllData envOk ?now ?d1)"
      "[''case-1'']" "''case-1''"] ex cs m by blast
  from h1 ne t1 cs t2 [unfolded ev] show ?thesis by blast
qed


section \<open>The offline report\<close>

lemma issuesOf_empty: "issuesOf f = [] \<longleftrightarrow> \<not> anomalous f"
  by (simp add: issuesOf_def anomalous_def)

lemma metadataIssues_empty: "metadataIssues fs = [] \<longleftrightarrow> (\<forall>f \<in> set fs. \<not> anomalous f)"
  by (simp add: metadataIssues_def issuesOf_empty)

lemma issuesOf_subset: "f \<in> set fs \<Longrightarrow> set (issuesOf f) \<subseteq> set (metadataIssues fs)"
  by (auto simp: metadataIssues_def)

text \<open>
  C7. In the metadata section, every descriptor of size 0 has its line
  \<^verbatim>\<open>WARNING - File is empty (0 bytes)\<close>, every descriptor without a type or with the
  empty type its line \<^verbatim>\<open>Missing MIME type information\<close>, every descriptor above 50 MiB
  its line \<^verbatim>\<open>Large file (... MB) - may indicate data dump\<close>; the lines are pushed joined
  under the heading \<^verbatim>\<open>Metadata Anomalies Detected\<close>. When no descriptor meets any of the
  three conditions the section is its heading, the one sentence
  \<^verbatim>\<open>All files have complete metadata. No anomalies detected.\<close> and the empty line.
\<close>

theorem metadata_anomaly_section:
  "(\<forall>f \<in> set fs. d_size f = 0 \<longrightarrow>
      ''- **'' @ d_name f @ ''**: WARNING - File is empty (0 bytes)'' \<in> set (metadataIssues fs))
   \<and> (\<forall>f \<in> set fs. d_type f = None \<or> d_type f = Some [] \<longrightarrow>
      ''- **'' @ d_name f @ ''**: Missing MIME type information'' \<in> set (metadataIssues fs))
   \<and> (\<forall>f \<in> set fs. d_size f > 50 * 1024 * 1024 \<longrightarrow>
      ''- **'' @ d_name f @ ''**: Large file ('' @ toFixed2 (of_nat (d_size f) / 1024 / 1024)
         @ '' MB) - may indicate data dump'' \<in> set (metadataIssues fs))
   \<and> ((\<exists>f \<in> set fs. anomalous f) \<longrightarrow>
      metadataSection fs = [''## 4. Metadata Analysis (Brain B3)'' @ nl,
                            ''**Metadata Anomalies Detected:**'' @ nl,
                            join nl (metadataIssues fs), []])
   \<and> ((\<forall>f \<in> set fs. \<not> anomalous f) \<longrightarrow>
      metadataSection fs = [''## 4. Metadata Analysis (Brain B3)'' @ nl,
                            ''All files have complete metadata. No anomalies detected.'', []])"
proof (intro conjI ballI impI)
  fix f assume f: "f \<in> set fs" and z: "d_size f = 0"
  from z have "''- **'' @ d_name f @ ''**: WARNING - File is empty (0 bytes)'' \<in> set (issuesOf f)"
    by (simp add: issuesOf_def)
  with issuesOf_subset [OF f]
  show "''- **'' @ d_name f @ ''**: WARNING - File is empty (0 bytes)'' \<in> set (metadataIssues fs)"
    by blast
next
  fix f assume f: "f \<in> set fs" and t: "d_type f = None \<or> d_type f = Some []"
  from t have "''- **'' @ d_name f @ ''**: Missing MIME type information'' \<in> set (issuesOf f)"
    by (simp add: issuesOf_def)
  with issuesOf_subset [OF f]
  show "''- **'' @ d_name f @ ''**: Missing MIME type information'' \<in> set (metadataIssues fs)"
    by blast
next
  fix f assume f: "f \<in> set fs" and b: "d_size f > 50 * 1024 * 1024"
  from b have "''- **'' @ d_name f @ ''**: Large file ('' @ toFixed2 (of_nat (d_size f) / 1024 / 1024)
         @ '' MB) - may indicate data dump'' \<in> set (issuesOf f)"
    by (simp add: issuesOf_def)
  with issuesOf_subset [OF f]
  show "''- **'' @ d_name f @ ''**: Large file ('' @ toFixed2 (of_nat (d_size f) / 1024 / 1024)
         @ '' MB) - may indicate data dump'' \<in> set (metadataIssues fs)"
    by blast
next
  assume "\<exists>f \<in> set fs. anomalous f"
  then have "metadataIssues fs \<noteq> []"
    by (simp add: metadataIssues_empty)
  then show "metadataSection fs = [''## 4. Metadata Analysis (Brain B3)'' @ nl,
                            ''**Metadata Anomalies Detected:**'' @ nl,
                            join nl (metadataIssues fs), []]"
    by (simp add: metadataSection_def)
next
  assume "\<forall>f \<in> set fs. \<not> anomalous f"
  then have "metadataIssues fs = []"
    by (simp add: metadataIssues_empty)
  then show "metadataSection fs = [''## 4. Metadata Analysis (Brain B3)'' @ nl,
                            ''All files have complete metadata. No anomalies detected.'', []]"
    by (simp add: metadataSection_def)
qed

lemma toFixed2_descBig: "toFixed2 (of_nat (d_size descBig) / 1024 / 1024) = ''75.00''"
proof -
  have "\<lfloor>(of_nat (d_size descBig) :: rat) / 1024 / 1024 * 100 + 1 / 2\<rfloor> = 7500"
    by (rule floor_unique) (simp_all add: descBig_def)
  then show ?thesis
    by (simp add: toFixed2_def twoDigits_def showNat.simps digitChar_def)
qed

theorem metadata_anomaly_section_witness:
  "d_size descB = 0 \<and> d_type descB = Some [] \<and> d_type descBig = None
   \<and> d_size descBig > 50 * 1024 * 1024
   \<and> ''- **b.bin**: WARNING - File is empty (0 bytes)'' \<in> set (metadataIssues [descA, descB, descBig])
   \<and> ''- **b.bin**: Missing MIME type information'' \<in> set (metadataIssues [descA, descB, descBig])
   \<and> ''- **dump.zip**: Missing MIME type information'' \<in> set (metadataIssues [descA, descB, descBig])
   \<and> ''- **dump.zip**: Large file (75.00 MB) - may indicate data dump''
        \<in> set (metadataIssues [descA, descB, descBig])
   \<and> metadataSection [descA, descB, descBig]
       = [''## 4. Metadata Analysis (Brain B3)'' @ nl, ''**Metadata Anomalies Detected:**'' @ nl,
          join nl (metadataIssues [descA, descB, descBig]), []]
   \<and> \<not> anomalous descA \<and> \<not> anomalous descC
   \<and> metadataSection [descA, descC]
       = [''## 4. Metadata Analysis (Brain B3)'' @ nl,
          ''All files have complete metadata. No anomalies detected.'', []]"
proof -
  have facts: "d_size descB = 0 \<and> d_type descB = Some [] \<and> d_type descBig = None
      \<and> d_size descBig > 50 * 1024 * 1024 \<and> d_name descB = ''b.bin'' \<and> d_name descBig = ''dump.zip''"
    by (simp add: descB_def descBig_def)
  have ok: "\<not> anomalous descA \<and> \<not> anomalous descC"
    by (simp add: anomalous_def descA_def descC_def)
  have an: "anomalous descB"
    by (simp add: anomalous_def descB_def)
  note t1 = metadata_anomaly_section [of "[descA, descB, descBig]"]
  note t2 = metadata_anomaly_section [of "[descA, descC]"]
  have e: "''- **'' @ d_name descB @ ''**: WARNING - File is empty (0 bytes)''
             \<in> set (metadataIssues [descA, descB, descBig])"
    using t1 facts by simp
  have m1: "''- **'' @ d_name descB @ ''**: Missing MIME type information''
             \<in> set (metadataIssues [descA, descB, descBig])"
    using t1 facts by simp
  have m2: "''- **'' @ d_name descBig @ ''**: Missing MIME type information''
             \<in> set (metadataIssues [descA, descB, descBig])"
    using t1 facts by simp
  have big: "descBig \<in> set [descA, descB, descBig]"
    by simp
  have raw: "''- **'' @ d_name descBig @ ''**: Large file (''
             @ toFixed2 (of_nat (d_size descBig) / 1024 / 1024) @ '' MB) - may indicate data dump''
             \<in> set (metadataIssues [descA, descB, descBig])"
    using t1 facts big by blast
  have eq: "''- **'' @ d_name descBig @ ''**: Large file (''
             @ toFixed2 (of_nat (d_size descBig) / 1024 / 1024) @ '' MB) - may indicate data dump''
           = ''- **dump.zip**: Large file (75.00 MB) - may indicate data dump''"
    unfolding toFixed2_descBig using facts by simp
  have l: "''- **dump.zip**: Large file (75.00 MB) - may indicate data dump''
             \<in> set (metadataIssues [descA, descB, descBig])"
    using raw unfolding eq .
  have s1: "metadataSection [descA, descB, descBig]
       = [''## 4. Metadata Analysis (Brain B3)'' @ nl, ''**Metadata Anomalies Detected:**'' @ nl,
          join nl (metadataIssues [descA, descB, descBig]), []]"
    using t1 an by simp
  have s2: "metadataSection [descA, descC]
       = [''## 4. Metadata Analysis (Brain B3)'' @ nl,
          ''All files have complete metadata. No anomalies detected.'', []]"
    using t2 ok by simp
  from facts ok e m1 m2 l s1 s2 show ?thesis
    by simp
qed

lemma roundedHours_div: "roundedHours ms = (2 * ms + 3600000) div 7200000"
proof -
  have "(of_int ms :: rat) / (1000 * 60 * 60) + 1 / 2 = of_int (2 * ms + 3600000) / of_int 7200000"
    by (simp add: field_simps)
  then show ?thesis
    unfolding roundedHours_def Math_round_def by (simp only: floor_divide_of_int_eq)
qed

lemma hours_exceed: "(of_int ms :: rat) / (1000 * 60 * 60) > 24 \<longleftrightarrow> ms > 24 * 60 * 60 * 1000"
  by (simp add: field_simps)

lemma timeGaps_step:
  "timeGaps env (p # c # others)
     = (if exceedsDay env (p, c) then [gapLine env (p, c)] else []) @ timeGaps env (c # others)"
  by (simp add: exceedsDay_def gapLine_def gapMs_def roundedHours_def hours_exceed Let_def)

lemma timeGaps_lines:
  "timeGaps env fs = map (gapLine env) (filter (exceedsDay env) (adjacentPairs fs))"
proof (induction fs rule: induct_list012)
  case 1
  show ?case by (simp add: adjacentPairs_def)
next
  case (2 f)
  show ?case by (simp add: adjacentPairs_def)
next
  case (3 p c others)
  have "adjacentPairs (p # c # others) = (p, c) # adjacentPairs (c # others)"
    by (simp add: adjacentPairs_def)
  with 3(2) show ?case
    by (simp only: timeGaps_step) simp
qed

lemma sortedFiles_pair:
  "modifiedMs env a \<le> modifiedMs env b \<Longrightarrow> sortedFiles env [a, b] = [a, b]"
  by (simp add: sortedFiles_def)

text \<open>
  C8. The files are scanned in ascending order of their modification time. Every
  adjacent pair more than 24 hours apart, and no other, has a gap line; the line gives
  the gap rounded to whole hours. The temporal block is pushed exactly when there is such
  a pair. Two descriptors 30 hours apart give the line with \<^verbatim>\<open>30 hours\<close>; two
  descriptors one hour apart give no block.
\<close>

theorem temporal_gap_scan:
  "sorted (map (modifiedMs env) (sortedFiles env fs)) \<and> mset (sortedFiles env fs) = mset fs
   \<and> timeGaps env (sortedFiles env fs)
       = map (gapLine env) (filter (exceedsDay env) (adjacentPairs (sortedFiles env fs)))
   \<and> ((\<exists>p \<in> set (adjacentPairs (sortedFiles env fs)). exceedsDay env p) \<longrightarrow>
        temporalBlock env fs
          = [''**Temporal Anomalies:**'' @ nl, join nl (timeGaps env (sortedFiles env fs)), []])
   \<and> ((\<forall>p \<in> set (adjacentPairs (sortedFiles env fs)). \<not> exceedsDay env p) \<longrightarrow>
        temporalBlock env fs = [])
   \<and> (modifiedMs env b - modifiedMs env a = 30 * 60 * 60 * 1000 \<longrightarrow>
        temporalBlock env [a, b]
          = [''**Temporal Anomalies:**'' @ nl,
             ''- Gap of 30 hours between '' @ dquote @ d_name a @ dquote @ '' and '' @ dquote
               @ d_name b @ dquote, []])
   \<and> (modifiedMs env d - modifiedMs env c = 1 * 60 * 60 * 1000 \<longrightarrow> temporalBlock env [c, d] = [])"
proof (intro conjI impI)
  show "sorted (map (modifiedMs env) (sortedFiles env fs))"
    by (simp add: sortedFiles_def)
  show "mset (sortedFiles env fs) = mset fs"
    by (simp add: sortedFiles_def)
  show "timeGaps env (sortedFiles env fs)
       = map (gapLine env) (filter (exceedsDay env) (adjacentPairs (sortedFiles env fs)))"
    by (rule timeGaps_lines)
next
  assume "\<exists>p \<in> set (adjacentPairs (sortedFiles env fs)). exceedsDay env p"
  then have "filter (exceedsDay env) (adjacentPairs (sortedFiles env fs)) \<noteq> []"
    by (simp add: filter_empty_conv)
  then have "timeGaps env (sortedFiles env fs) \<noteq> []"
    by (simp add: timeGaps_lines)
  then show "temporalBlock env fs
          = [''**Temporal Anomalies:**'' @ nl, join nl (timeGaps env (sortedFiles env fs)), []]"
    by (simp add: temporalBlock_def Let_def)
next
  assume "\<forall>p \<in> set (adjacentPairs (sortedFiles env fs)). \<not> exceedsDay env p"
  then have "filter (exceedsDay env) (adjacentPairs (sortedFiles env fs)) = []"
    by (simp add: filter_empty_conv)
  then have "timeGaps env (sortedFiles env fs) = []"
    by (simp add: timeGaps_lines)
  then show "temporalBlock env fs = []"
    by (simp add: temporalBlock_def)
next
  assume h: "modifiedMs env b - modifiedMs env a = 30 * 60 * 60 * 1000"
  then have s: "sortedFiles env [a, b] = [a, b]"
    by (intro sortedFiles_pair) simp
  have r: "roundedHours (30 * 60 * 60 * 1000) = 30"
    by (simp add: roundedHours_div)
  have "timeGaps env [a, b]
          = [''- Gap of 30 hours between '' @ dquote @ d_name a @ dquote @ '' and '' @ dquote
               @ d_name b @ dquote]"
    using h r
    by (simp add: timeGaps_lines adjacentPairs_def exceedsDay_def gapLine_def gapMs_def
        showNat.simps digitChar_def)
  then show "temporalBlock env [a, b]
          = [''**Temporal Anomalies:**'' @ nl,
             ''- Gap of 30 hours between '' @ dquote @ d_name a @ dquote @ '' and '' @ dquote
               @ d_name b @ dquote, []]"
    by (simp add: temporalBlock_def s)
next
  assume h: "modifiedMs env d - modifiedMs env c = 1 * 60 * 60 * 1000"
  then have s: "sortedFiles env [c, d] = [c, d]"
    by (intro sortedFiles_pair) simp
  have "timeGaps env [c, d] = []"
    using h by (simp add: timeGaps_lines adjacentPairs_def exceedsDay_def gapMs_def)
  then show "temporalBlock env [c, d] = []"
    by (simp add: temporalBlock_def s)
qed

lemma modifiedMs_examples:
  "modifiedMs envOk descA = 0 \<and> modifiedMs envOk descC = 3600000 \<and> modifiedMs envOk descB = 108000000"
  by (simp add: modifiedMs_def envOk_def descA_def descB_def descC_def)

lemma sortedFiles_example: "sortedFiles envOk [descB, descA, descC] = [descA, descC, descB]"
  by (simp add: sortedFiles_def modifiedMs_examples)

theorem temporal_gap_scan_witness:
  "sortedFiles envOk [descB, descA, descC] = [descA, descC, descB]
   \<and> (descC, descB) \<in> set (adjacentPairs (sortedFiles envOk [descB, descA, descC]))
   \<and> exceedsDay envOk (descC, descB) \<and> \<not> exceedsDay envOk (descA, descC)
   \<and> timeGaps envOk (sortedFiles envOk [descB, descA, descC]) = [gapLine envOk (descC, descB)]
   \<and> gapLine envOk (descC, descB)
       = ''- Gap of 29 hours between '' @ dquote @ ''c.txt'' @ dquote @ '' and '' @ dquote
           @ ''b.bin'' @ dquote
   \<and> temporalBlock envOk [descB, descA, descC]
       = [''**Temporal Anomalies:**'' @ nl,
          join nl (timeGaps envOk (sortedFiles envOk [descB, descA, descC])), []]
   \<and> modifiedMs envOk descB - modifiedMs envOk descA = 30 * 60 * 60 * 1000
   \<and> temporalBlock envOk [descA, descB]
       = [''**Temporal Anomalies:**'' @ nl,
          ''- Gap of 30 hours between '' @ dquote @ d_name descA @ dquote @ '' and '' @ dquote
            @ d_name descB @ dquote, []]
   \<and> modifiedMs envOk descC - modifiedMs envOk descA = 1 * 60 * 60 * 1000
   \<and> temporalBlock envOk [descA, descC] = []"
proof -
  note t = temporal_gap_scan [of envOk "[descB, descA, descC]" descB descA descC descA]
  have s: "sortedFiles envOk [descB, descA, descC] = [descA, descC, descB]"
    by (rule sortedFiles_example)
  have p: "(descC, descB) \<in> set (adjacentPairs (sortedFiles envOk [descB, descA, descC]))"
    by (simp add: s adjacentPairs_def)
  have x: "exceedsDay envOk (descC, descB) \<and> \<not> exceedsDay envOk (descA, descC)"
    by (simp add: exceedsDay_def gapMs_def modifiedMs_examples)
  have g: "timeGaps envOk (sortedFiles envOk [descB, descA, descC]) = [gapLine envOk (descC, descB)]"
    using t x by (simp add: s adjacentPairs_def)
  have "roundedHours 104400000 = 29"
    by (simp add: roundedHours_div)
  then have line: "gapLine envOk (descC, descB)
       = ''- Gap of 29 hours between '' @ dquote @ ''c.txt'' @ dquote @ '' and '' @ dquote
           @ ''b.bin'' @ dquote"
    by (simp add: gapLine_def gapMs_def modifiedMs_examples showNat.simps digitChar_def)
       (simp add: descB_def descC_def)
  have b: "temporalBlock envOk [descB, descA, descC]
       = [''**Temporal Anomalies:**'' @ nl,
          join nl (timeGaps envOk (sortedFiles envOk [descB, descA, descC])), []]"
    using t p x by blast
  have h30: "modifiedMs envOk descB - modifiedMs envOk descA = 30 * 60 * 60 * 1000"
    by (simp add: modifiedMs_examples)
  have h1: "modifiedMs envOk descC - modifiedMs envOk descA = 1 * 60 * 60 * 1000"
    by (simp add: modifiedMs_examples)
  have b30: "temporalBlock envOk [descA, descB]
       = [''**Temporal Anomalies:**'' @ nl,
          ''- Gap of 30 hours between '' @ dquote @ d_name descA @ dquote @ '' and '' @ dquote
            @ d_name descB @ dquote, []]"
    using t h30 by blast
  have b1: "temporalBlock envOk [descA, descC] = []"
    using t h1 by blast
  from s p x g line b h30 b30 h1 b1 show ?thesis by blast
qed

end
